theory Spec2Isabelle
  imports Main "HOL-Library.Monad_Syntax" "HOL-Library.AList"
begin

unbundle bit_operations_syntax

section \<open>Strings of the C and C++ standard libraries\<close>

text \<open>
  \<open>std::string\<close> is a sequence of bytes: \<open>string\<close>. The members that the program calls
  and that throw \<open>std::out_of_range\<close> return an option, \<open>None\<close> being the exception.
\<close>

definition at :: "string \<Rightarrow> nat \<Rightarrow> char option" where
  "at s i = (if i < length s then Some (s ! i) else None)"

definition substr :: "string \<Rightarrow> nat \<Rightarrow> string option" where
  "substr s pos = (if length s < pos then None else Some (drop pos s))"

definition substr_n :: "string \<Rightarrow> nat \<Rightarrow> nat \<Rightarrow> string option" where
  "substr_n s pos n = (if length s < pos then None else Some (take n (drop pos s)))"

definition erase :: "string \<Rightarrow> nat \<Rightarrow> string option" where
  "erase s pos = (if length s < pos then None else Some (take pos s))"

text \<open>\<open>s.find(pat)\<close> from position \<open>pos\<close> of the original string, \<open>s\<close> being what is left
  of it: the lowest position at which \<open>pat\<close> starts, \<open>None\<close> for \<open>npos\<close>.\<close>

fun find_from :: "string \<Rightarrow> string \<Rightarrow> nat \<Rightarrow> nat option" where
  "find_from [] pat pos = (if pat = [] then Some pos else None)"
| "find_from (c # cs) pat pos =
     (if take (length pat) (c # cs) = pat then Some pos else find_from cs pat (Suc pos))"

definition find_str :: "string \<Rightarrow> string \<Rightarrow> nat option" where
  "find_str s pat = find_from s pat 0"

text \<open>An unsigned number written to a stream, in decimal.\<close>

function string_of_nat :: "nat \<Rightarrow> string" where
  "string_of_nat n =
     (if n < 10 then [''0123456789'' ! n]
      else string_of_nat (n div 10) @ [''0123456789'' ! (n mod 10)])"
  by pat_completeness auto
termination
  by (relation "measure id") auto

declare string_of_nat.simps [simp del]

definition string_of_int :: "int \<Rightarrow> string" where
  "string_of_int i = (if i < 0 then ''-'' @ string_of_nat (nat (- i)) else string_of_nat (nat i))"

text \<open>\<open>std::setfill('0') << std::setw(w)\<close> before a number.\<close>

definition setw0 :: "nat \<Rightarrow> string \<Rightarrow> string" where
  "setw0 w s = replicate (w - length s) (CHR ''0'') @ s"

text \<open>\<open>strcasecmp(a, b) == 0\<close> in the C locale.\<close>

definition tolower :: "char \<Rightarrow> char" where
  "tolower c =
     (let n = of_char c :: nat in if 65 \<le> n \<and> n \<le> 90 then char_of (n + 32) else c)"

definition strcasecmp_eq :: "string \<Rightarrow> string \<Rightarrow> bool" where
  "strcasecmp_eq a b \<longleftrightarrow> map tolower a = map tolower b"

text \<open>\<open>a[i]\<close> for an array of \<open>n\<close> elements. C++ does not check the index; \<open>None\<close> stands
  for a read outside the array, where the program has no defined behaviour.\<close>

definition array_at :: "nat \<Rightarrow> (nat \<Rightarrow> 'a) \<Rightarrow> nat \<Rightarrow> 'a option" where
  "array_at n a i = (if i < n then Some (a i) else None)"

section \<open>The diagnostic request and response\<close>

text \<open>
  The enumerations and structures of \<open>dcgm_structs.h\<close> and \<open>dcgm_errors.h\<close>, as far as
  \<open>Diag.cpp\<close> reads them. A C array is a function of its index; a \<open>char\<close> array holding a
  NUL-terminated text is the text before the NUL, so \<open>msg[0] != 0\<close> is \<open>msg \<noteq> []\<close>.
\<close>

datatype dcgmReturn_t =
    DCGM_ST_OK
  | DCGM_ST_GROUP_INCOMPATIBLE
  | DCGM_ST_NOT_SUPPORTED
  | DCGM_ST_PAUSED
  | DCGM_ST_TIMEOUT
  | DCGM_ST_NVVS_ERROR
  | DCGM_ST_NVVS_ISOLATE_ERROR
  | DCGM_ST_NVVS_KILLED
  | DCGM_ST_OTHER int

datatype dcgmDiagResult_t =
    DCGM_DIAG_RESULT_PASS
  | DCGM_DIAG_RESULT_SKIP
  | DCGM_DIAG_RESULT_WARN
  | DCGM_DIAG_RESULT_FAIL
  | DCGM_DIAG_RESULT_NOT_RUN

text \<open>Modelled from the spec: the priority enumeration of \<open>dcgm_errors.h\<close> is not among the
  sources; the spec gives it as a set of priority tiers with one distinguished isolate tier.\<close>

datatype dcgmErrorPriority_t = DCGM_ERROR_ISOLATE | DCGM_ERROR_TIER nat

record dcgmDiagErrorDetail =
  msg :: string
  error_gpuId :: int
  code :: nat
  category :: nat
  severity :: nat

record dcgmDiagTestResult =
  status :: dcgmDiagResult_t
  error :: "nat \<Rightarrow> dcgmDiagErrorDetail"
  info :: string

record dcgmDiagResponsePerGpu =
  gpuId :: nat
  hwDiagnosticReturn :: nat
  results :: "nat \<Rightarrow> dcgmDiagTestResult"

record dcgmDiagResponse =
  gpuCount :: nat
  levelOneTestCount :: nat
  levelOneResults :: "nat \<Rightarrow> dcgmDiagTestResult"
  perGpuResponses :: "nat \<Rightarrow> dcgmDiagResponsePerGpu"
  systemError :: dcgmDiagErrorDetail
  devIds :: "nat \<Rightarrow> string"
  devSerials :: "nat \<Rightarrow> string"
  dcgmVersion :: string
  driverVersion :: string

record dcgmRunDiag =
  groupId :: nat
  gpuList :: string
  testNames :: "nat \<Rightarrow> string"
  flags :: nat
  totalIterations :: nat
  currentIteration :: nat

text \<open>
  What \<open>Diag.cpp\<close> takes from headers that are not among the sources. They are parameters
  of the model: first the three array bounds and the lookup of an error code's priority,
\<close>

record limits =
  DCGM_MAX_NUM_DEVICES :: nat
  DCGM_PER_GPU_TEST_COUNT_V8 :: nat
  DCGM_MAX_ERRORS :: nat
  dcgmErrorGetPriorityByCode :: "nat \<Rightarrow> dcgmErrorPriority_t"

text \<open>
  then the indices of the tests, the flag bit, the plugin names of \<open>PluginStrings.h\<close>, the
  blank marker, and the helpers of other units: the text and the number of a return code,
  the tokenizer, \<open>strtol\<close> in base 10, and the version of the build.
\<close>

record headers = limits +
  DCGM_MEMORY_INDEX :: nat
  DCGM_DIAGNOSTIC_INDEX :: nat
  DCGM_PCI_INDEX :: nat
  DCGM_SM_STRESS_INDEX :: nat
  DCGM_TARGETED_STRESS_INDEX :: nat
  DCGM_TARGETED_POWER_INDEX :: nat
  DCGM_MEMORY_BANDWIDTH_INDEX :: nat
  DCGM_MEMTEST_INDEX :: nat
  DCGM_PULSE_TEST_INDEX :: nat
  DCGM_EUD_TEST_INDEX :: nat
  DCGM_CONTEXT_CREATE_INDEX :: nat
  DCGM_SWTEST_CUDA_RUNTIME_LIBRARY :: nat
  DCGM_RUN_FLAGS_VERBOSE :: nat
  CTXCREATE_PLUGIN_NAME :: string
  DIAGNOSTIC_PLUGIN_NAME :: string
  PULSE_TEST_PLUGIN_NAME :: string
  PCIE_PLUGIN_NAME :: string
  SMSTRESS_PLUGIN_NAME :: string
  TS_PLUGIN_NAME :: string
  TP_PLUGIN_NAME :: string
  MEMBW_PLUGIN_NAME :: string
  MEMTEST_PLUGIN_NAME :: string
  EUD_PLUGIN_NAME :: string
  DCGM_STR_BLANK :: string
  errorString :: "dcgmReturn_t \<Rightarrow> string"
  return_number :: "dcgmReturn_t \<Rightarrow> int"
  dcgmTokenizeString :: "string \<Rightarrow> string \<Rightarrow> string list"
  strtol :: "string \<Rightarrow> int"
  GetVersion :: string

section \<open>Classification of a response\<close>

text \<open>A loop of \<open>GetFailureResult\<close> either leaves the function with a value or ends with
  the current value of \<open>ret\<close>.\<close>

datatype scan = Returned dcgmReturn_t | Ended dcgmReturn_t

text \<open>The loop over the error slots \<open>js\<close> of one failing result.\<close>

fun scan_errors :: "'a limits_scheme \<Rightarrow> (nat \<Rightarrow> dcgmDiagErrorDetail) \<Rightarrow> nat list \<Rightarrow>
    dcgmReturn_t \<Rightarrow> scan" where
  "scan_errors H err [] ret = Ended ret"
| "scan_errors H err (j # js) ret =
     (if dcgmErrorGetPriorityByCode H (code (err j)) = DCGM_ERROR_ISOLATE
      then Returned DCGM_ST_NVVS_ISOLATE_ERROR
      else scan_errors H err js DCGM_ST_NVVS_ERROR)"

text \<open>The body shared by the level-one loop and the innermost per-GPU loop.\<close>

definition scan_result :: "'a limits_scheme \<Rightarrow> dcgmDiagTestResult \<Rightarrow> dcgmReturn_t \<Rightarrow> scan" where
  "scan_result H res ret =
     (if status res = DCGM_DIAG_RESULT_FAIL
      then scan_errors H (error res) [0..<DCGM_MAX_ERRORS H] ret
      else Ended ret)"

fun scan_levelOne :: "'a limits_scheme \<Rightarrow> dcgmDiagResponse \<Rightarrow> nat list \<Rightarrow> dcgmReturn_t \<Rightarrow> scan" where
  "scan_levelOne H diagResult [] ret = Ended ret"
| "scan_levelOne H diagResult (i # is) ret =
     (case scan_result H (levelOneResults diagResult i) ret of
        Returned v \<Rightarrow> Returned v
      | Ended ret' \<Rightarrow> scan_levelOne H diagResult is ret')"

fun scan_tests :: "'a limits_scheme \<Rightarrow> dcgmDiagResponsePerGpu \<Rightarrow> nat list \<Rightarrow> dcgmReturn_t \<Rightarrow> scan" where
  "scan_tests H gpu [] ret = Ended ret"
| "scan_tests H gpu (j # js) ret =
     (case scan_result H (results gpu j) ret of
        Returned v \<Rightarrow> Returned v
      | Ended ret' \<Rightarrow> scan_tests H gpu js ret')"

fun scan_devices :: "'a limits_scheme \<Rightarrow> dcgmDiagResponse \<Rightarrow> nat list \<Rightarrow> dcgmReturn_t \<Rightarrow> scan" where
  "scan_devices H diagResult [] ret = Ended ret"
| "scan_devices H diagResult (i # is) ret =
     (case scan_tests H (perGpuResponses diagResult i) [0..<DCGM_PER_GPU_TEST_COUNT_V8 H] ret of
        Returned v \<Rightarrow> Returned v
      | Ended ret' \<Rightarrow> scan_devices H diagResult is ret')"

definition GetFailureResult :: "'a limits_scheme \<Rightarrow> dcgmDiagResponse \<Rightarrow> dcgmReturn_t" where
  "GetFailureResult H diagResult =
     (case scan_levelOne H diagResult [0..<levelOneTestCount diagResult] DCGM_ST_OK of
        Returned v \<Rightarrow> v
      | Ended ret \<Rightarrow>
          (case scan_devices H diagResult [0..<DCGM_MAX_NUM_DEVICES H] ret of
             Returned v \<Rightarrow> v
           | Ended ret' \<Rightarrow> ret'))"

text \<open>The claim's words: a failing result one of whose error slots resolves to the isolate
  tier, and the results that \<open>GetFailureResult\<close> is about.\<close>

definition isolate_result :: "'a limits_scheme \<Rightarrow> dcgmDiagTestResult \<Rightarrow> bool" where
  "isolate_result H res \<longleftrightarrow>
     status res = DCGM_DIAG_RESULT_FAIL \<and>
     list_ex (\<lambda>j. dcgmErrorGetPriorityByCode H (code (error res j)) = DCGM_ERROR_ISOLATE)
       [0..<DCGM_MAX_ERRORS H]"

definition all_results :: "'a limits_scheme \<Rightarrow> dcgmDiagResponse \<Rightarrow> dcgmDiagTestResult list" where
  "all_results H diagResult =
     map (levelOneResults diagResult) [0..<levelOneTestCount diagResult] @
     concat (map (\<lambda>i. map (results (perGpuResponses diagResult i)) [0..<DCGM_PER_GPU_TEST_COUNT_V8 H])
       [0..<DCGM_MAX_NUM_DEVICES H])"

section \<open>The GPUs that ran\<close>

definition InitializeDiagResponse :: "'a limits_scheme \<Rightarrow> dcgmDiagResponse" where
  "InitializeDiagResponse H =
     \<lparr> gpuCount = 0, levelOneTestCount = 0,
       levelOneResults = (\<lambda>_. \<lparr> status = DCGM_DIAG_RESULT_PASS,
         error = (\<lambda>_. \<lparr> msg = [], error_gpuId = 0, code = 0, category = 0, severity = 0 \<rparr>),
         info = [] \<rparr>),
       perGpuResponses = (\<lambda>_. \<lparr> gpuId = DCGM_MAX_NUM_DEVICES H, hwDiagnosticReturn = 0,
         results = (\<lambda>_. \<lparr> status = DCGM_DIAG_RESULT_PASS,
           error = (\<lambda>_. \<lparr> msg = [], error_gpuId = 0, code = 0, category = 0, severity = 0 \<rparr>),
           info = [] \<rparr>) \<rparr>),
       systemError = \<lparr> msg = [], error_gpuId = 0, code = 0, category = 0, severity = 0 \<rparr>,
       devIds = (\<lambda>_. []), devSerials = (\<lambda>_. []), dcgmVersion = [], driverVersion = [] \<rparr>"

text \<open>The inner loop of \<open>PopulateGpuList\<close>, which leaves at the first test that ran.\<close>

fun someTestRan :: "dcgmDiagResponsePerGpu \<Rightarrow> nat list \<Rightarrow> bool" where
  "someTestRan gpu [] = False"
| "someTestRan gpu (j # js) =
     (if status (results gpu j) \<noteq> DCGM_DIAG_RESULT_NOT_RUN then True else someTestRan gpu js)"

function PopulateGpuList_from :: "'a limits_scheme \<Rightarrow> dcgmDiagResponse \<Rightarrow> nat \<Rightarrow> nat list \<Rightarrow> nat list" where
  "PopulateGpuList_from H diagResult i gpuVec =
     (if i < DCGM_MAX_NUM_DEVICES H \<and> length gpuVec < gpuCount diagResult then
        (if gpuId (perGpuResponses diagResult i) \<noteq> DCGM_MAX_NUM_DEVICES H then
           (if someTestRan (perGpuResponses diagResult i) [0..<DCGM_PER_GPU_TEST_COUNT_V8 H]
            then PopulateGpuList_from H diagResult (Suc i) (gpuVec @ [i])
            else PopulateGpuList_from H diagResult (Suc i) gpuVec)
         else PopulateGpuList_from H diagResult (Suc i) gpuVec)
      else gpuVec)"
  by pat_completeness auto
termination
  by (relation "measure (\<lambda>(H, diagResult, i, gpuVec). DCGM_MAX_NUM_DEVICES H - i)") auto

declare PopulateGpuList_from.simps [simp del]

definition PopulateGpuList :: "'a limits_scheme \<Rightarrow> dcgmDiagResponse \<Rightarrow> nat list \<Rightarrow> nat list" where
  "PopulateGpuList H diagResult gpuVec = PopulateGpuList_from H diagResult 0 gpuVec"

text \<open>The claim's words: the slots whose sentinel id was overwritten.\<close>

definition overwritten_slots :: "'a limits_scheme \<Rightarrow> dcgmDiagResponse \<Rightarrow> nat list" where
  "overwritten_slots H diagResult =
     filter (\<lambda>i. gpuId (perGpuResponses diagResult i) \<noteq> DCGM_MAX_NUM_DEVICES H)
       [0..<DCGM_MAX_NUM_DEVICES H]"

text \<open>The slots that the code selects from: overwritten, and with a test that ran.\<close>

definition ran_slots :: "'a limits_scheme \<Rightarrow> dcgmDiagResponse \<Rightarrow> nat list" where
  "ran_slots H diagResult =
     filter (\<lambda>i. gpuId (perGpuResponses diagResult i) \<noteq> DCGM_MAX_NUM_DEVICES H \<and>
                list_ex (\<lambda>j. status (results (perGpuResponses diagResult i) j) \<noteq> DCGM_DIAG_RESULT_NOT_RUN)
                  [0..<DCGM_PER_GPU_TEST_COUNT_V8 H])
       [0..<DCGM_MAX_NUM_DEVICES H]"

section \<open>Message sanitization\<close>

definition isWhitespace :: "char \<Rightarrow> bool" where
  "isWhitespace c =
     (c = CHR '' '' \<or> c = CHR 0x0A \<or> c = CHR 0x09 \<or> c = CHR 0x0D \<or> c = CHR 0x0C)"

text \<open>The first loop of \<open>Sanitize\<close>: erase the last character while it is whitespace.\<close>

function remove_trailing :: "string \<Rightarrow> string option" where
  "remove_trailing sanitized =
     (if 0 < length sanitized then
        (case at sanitized (length sanitized - 1) of
           None \<Rightarrow> None
         | Some c \<Rightarrow>
             if isWhitespace c then
               (case erase sanitized (length sanitized - 1) of
                  None \<Rightarrow> None
                | Some sanitized' \<Rightarrow> remove_trailing sanitized')
             else Some sanitized)
      else Some sanitized)"
  by pat_completeness auto
termination
  by (relation "measure length") (auto simp: erase_def split: if_splits)

declare remove_trailing.simps [simp del]

text \<open>The second loop: advance \<open>pos\<close> while the character at \<open>pos\<close> is whitespace. Its
  guard tests the size of the string only, not \<open>pos\<close>, so \<open>at\<close> is what bounds it.\<close>

function skip_leading :: "string \<Rightarrow> nat \<Rightarrow> nat option" where
  "skip_leading sanitized pos =
     (if 0 < length sanitized then
        (case at sanitized pos of
           None \<Rightarrow> None
         | Some c \<Rightarrow> if isWhitespace c then skip_leading sanitized (Suc pos) else Some pos)
      else Some pos)"
  by pat_completeness auto
termination
  by (relation "measure (\<lambda>(s, pos). length s - pos)") (auto simp: at_def split: if_splits)

declare skip_leading.simps [simp del]

definition Sanitize :: "string \<Rightarrow> string option" where
  "Sanitize toOutput = do {
     sanitized0 \<leftarrow> (case find_str toOutput ''***'' of
                      Some pos \<Rightarrow> substr toOutput (pos + 3)
                    | None \<Rightarrow> Some toOutput);
     sanitized \<leftarrow> remove_trailing sanitized0;
     pos \<leftarrow> skip_leading sanitized 0;
     substr sanitized pos
   }"

section \<open>The text report\<close>

text \<open>
  What the program writes: text on \<open>std::cout\<close>, and rows of the table, each a
  \<open>cmdView.display()\<close> after the parameters \<open>DATA_NAME_TAG\<close> and \<open>DATA_INFO_TAG\<close> were
  set to the two strings. \<open>CommandOutputController\<close> is not among the sources; a row is kept
  as the pair it was given. A structured report is kept as the JSON value written.
\<close>

datatype json_key =
    NVVS_NAME | NVVS_VERSION_STR | NVVS_RUNTIME_ERROR | NVVS_DRIVER_VERSION
  | NVVS_GPU_SERIALS | NVVS_GPU_DEV_IDS | NVVS_HEADERS | NVVS_HEADER | NVVS_TESTS
  | NVVS_TEST_NAME | NVVS_RESULTS | NVVS_GPU_ID | NVVS_STATUS | NVVS_WARNING | NVVS_WARNINGS
  | NVVS_ERROR_ID | NVVS_ERROR_CATEGORY | NVVS_ERROR_SEVERITY | NVVS_INFO
  | NVVS_ITERATIONS | NVVS_RESULT | Key string

datatype json = JNull | JString string | JInt int | JArray "json list" | JObject "(json_key \<times> json) list"

datatype written = Stdout string | Display string string | StdoutJson json

definition DATA_INFO_TAG_LEN :: nat where
  "DATA_INFO_TAG_LEN = 45"

definition DIAG_HEADER :: string where
  "DIAG_HEADER =
     ''+---------------------------+------------------------------------------------+\<newline>'' @
     ''| Diagnostic                | Result                                         |\<newline>'' @
     ''+===========================+================================================+\<newline>''"

definition DIAG_INFO :: string where
  "DIAG_INFO = ''|-----  Metadata  ----------+------------------------------------------------|\<newline>''"

definition DIAG_FOOTER :: string where
  "DIAG_FOOTER = ''+---------------------------+------------------------------------------------+\<newline>''"

definition DIAG_DEPLOYMENT :: string where
  "DIAG_DEPLOYMENT = ''|-----  Deployment  --------+------------------------------------------------|\<newline>''"

definition DIAG_HARDWARE :: string where
  "DIAG_HARDWARE = ''+-----  Hardware  ----------+------------------------------------------------+\<newline>''"

definition DIAG_INTEGRATION :: string where
  "DIAG_INTEGRATION = ''+-----  Integration  -------+------------------------------------------------+\<newline>''"

definition DIAG_STRESS :: string where
  "DIAG_STRESS = ''+-----  Stress  ------------+------------------------------------------------+\<newline>''"

definition levelOneTests :: "string list" where
  "levelOneTests =
     [''Denylist'', ''NVML Library'', ''CUDA Main Library'', ''CUDA Toolkit Library'',
      ''Permissions and OS Blocks'', ''Persistence Mode'', ''Environment Variables'',
      ''Page Retirement/Row Remap'', ''Graphics Processes'', ''Inforom'']"

definition DISPLAY_DEPLOYMENT :: string where "DISPLAY_DEPLOYMENT = ''Deployment''"
definition DISPLAY_HARDWARE :: string where "DISPLAY_HARDWARE = ''Hardware''"
definition DISPLAY_INTEGRATION :: string where "DISPLAY_INTEGRATION = ''Integration''"
definition DISPLAY_STRESS :: string where "DISPLAY_STRESS = ''Stress''"
definition DISPLAY_MEMORY :: string where "DISPLAY_MEMORY = ''GPU Memory''"
definition DISPLAY_CTXCREATE :: string where "DISPLAY_CTXCREATE = ''Context Create''"
definition DISPLAY_SM_STRESS :: string where "DISPLAY_SM_STRESS = ''SM Stress''"
definition DISPLAY_TP :: string where "DISPLAY_TP = ''Targeted Power''"
definition DISPLAY_TS :: string where "DISPLAY_TS = ''Targeted Stress''"
definition DISPLAY_DIAGNOSTIC :: string where "DISPLAY_DIAGNOSTIC = ''Diagnostic''"
definition DISPLAY_PCIE :: string where "DISPLAY_PCIE = ''PCIe''"
definition DISPLAY_MEMBW :: string where "DISPLAY_MEMBW = ''Memory Bandwidth''"
definition DISPLAY_MEMTEST :: string where "DISPLAY_MEMTEST = ''Memtest''"
definition DISPLAY_PULSE_TEST :: string where "DISPLAY_PULSE_TEST = ''Pulse Test''"
definition DISPLAY_EUD_TEST :: string where "DISPLAY_EUD_TEST = ''EUD Test''"

text \<open>A loop whose body writes output and may fail: the outputs in order, or the failure.\<close>

fun for_each :: "('a \<Rightarrow> written list option) \<Rightarrow> 'a list \<Rightarrow> written list option" where
  "for_each body [] = Some []"
| "for_each body (x # xs) = do { a \<leftarrow> body x; b \<leftarrow> for_each body xs; Some (a @ b) }"

definition HelperDisplayDiagResult :: "dcgmDiagResult_t \<Rightarrow> string" where
  "HelperDisplayDiagResult val =
     (if val = DCGM_DIAG_RESULT_PASS then ''Pass''
      else if val = DCGM_DIAG_RESULT_SKIP then ''Skip''
      else ''Fail'')"

text \<open>\<open>DisplayVerboseInfo\<close> from position \<open>pos\<close> on. A \<open>std::string\<close> is far shorter than
  the range of \<open>size_t\<close>, so \<open>pos += 45\<close> does not wrap.\<close>

function DisplayVerboseInfo_from :: "string \<Rightarrow> string \<Rightarrow> nat \<Rightarrow> written list option" where
  "DisplayVerboseInfo_from name message pos =
     (if pos < length message then do {
        fragment \<leftarrow> substr_n message pos DATA_INFO_TAG_LEN;
        rest \<leftarrow> DisplayVerboseInfo_from name message (pos + DATA_INFO_TAG_LEN);
        Some (Display (if pos = 0 then name else []) fragment # rest)
      } else Some [])"
  by pat_completeness auto
termination
  by (relation "measure (\<lambda>(name, message, pos). length message - pos)")
     (auto simp: DATA_INFO_TAG_LEN_def)

declare DisplayVerboseInfo_from.simps [simp del]

definition DisplayVerboseInfo :: "string \<Rightarrow> string \<Rightarrow> written list option" where
  "DisplayVerboseInfo name message = DisplayVerboseInfo_from name message 0"

definition HelperDisplayDeploymentResult ::
    "'a limits_scheme \<Rightarrow> string \<Rightarrow> dcgmDiagTestResult \<Rightarrow> written list option" where
  "HelperDisplayDeploymentResult H nameTag result =
     (if status result \<noteq> DCGM_DIAG_RESULT_NOT_RUN then do {
        errors \<leftarrow> for_each
          (\<lambda>i. if msg (error result i) \<noteq> [] then DisplayVerboseInfo ''Error'' (msg (error result i))
               else Some [])
          [0..<DCGM_MAX_ERRORS H];
        infos \<leftarrow> (if info result \<noteq> [] then DisplayVerboseInfo ''Info'' (info result) else Some []);
        Some (Display nameTag (HelperDisplayDiagResult (status result)) # errors @ infos)
      } else Some [])"

text \<open>\<open>ss << devIds[0] << "," << devIds[1] ...\<close>\<close>

fun join_devIds :: "(nat \<Rightarrow> string) \<Rightarrow> nat list \<Rightarrow> string" where
  "join_devIds ids [] = []"
| "join_devIds ids (i # is) = (if i = 0 then ids i else '','' @ ids i) @ join_devIds ids is"

definition HelperDisplayVersionAndDevIds :: "dcgmDiagResponse \<Rightarrow> written list" where
  "HelperDisplayVersionAndDevIds diagResult =
     [Stdout DIAG_INFO,
      Display ''DCGM Version'' (dcgmVersion diagResult),
      Display ''Driver Version Detected'' (driverVersion diagResult),
      Display ''GPU Device IDs Detected''
        (join_devIds (devIds diagResult) [0..<gpuCount diagResult])]"

definition HelperDisplayDeployment :: "'a limits_scheme \<Rightarrow> dcgmDiagResponse \<Rightarrow> written list option" where
  "HelperDisplayDeployment H diagResult = do {
     rows \<leftarrow> for_each
       (\<lambda>i. do {
          name \<leftarrow> (if i < length levelOneTests then Some (levelOneTests ! i) else None);
          HelperDisplayDeploymentResult H name (levelOneResults diagResult i)
        })
       [0..<levelOneTestCount diagResult];
     Some (Stdout DIAG_DEPLOYMENT # rows)
   }"

definition HelperGetPluginName :: "'a headers_scheme \<Rightarrow> dcgmRunDiag \<Rightarrow> nat \<Rightarrow> string" where
  "HelperGetPluginName H drd index =
     (if index = DCGM_MEMORY_INDEX H then
        (if strcasecmp_eq (testNames drd 0) (CTXCREATE_PLUGIN_NAME H) then DISPLAY_CTXCREATE
         else DISPLAY_MEMORY)
      else if index = DCGM_DIAGNOSTIC_INDEX H then DISPLAY_DIAGNOSTIC
      else if index = DCGM_PCI_INDEX H then DISPLAY_PCIE
      else if index = DCGM_SM_STRESS_INDEX H then DISPLAY_SM_STRESS
      else if index = DCGM_TARGETED_STRESS_INDEX H then DISPLAY_TS
      else if index = DCGM_TARGETED_POWER_INDEX H then DISPLAY_TP
      else if index = DCGM_MEMORY_BANDWIDTH_INDEX H then DISPLAY_MEMBW
      else if index = DCGM_MEMTEST_INDEX H then DISPLAY_MEMTEST
      else if index = DCGM_PULSE_TEST_INDEX H then DISPLAY_PULSE_TEST
      else if index = DCGM_EUD_TEST_INDEX H then DISPLAY_EUD_TEST
      else if index = DCGM_CONTEXT_CREATE_INDEX H then DISPLAY_CTXCREATE
      else [])"

text \<open>The result of test \<open>testIndex\<close> on the GPU in slot \<open>gpuIndex\<close>:
  \<open>diagResults[gpuIndex].results[testIndex]\<close>.\<close>

definition result_at ::
    "'a limits_scheme \<Rightarrow> (nat \<Rightarrow> dcgmDiagResponsePerGpu) \<Rightarrow> nat \<Rightarrow> nat \<Rightarrow> dcgmDiagTestResult option" where
  "result_at H diagResults gpuIndex testIndex = do {
     gpu \<leftarrow> array_at (DCGM_MAX_NUM_DEVICES H) diagResults gpuIndex;
     array_at (DCGM_PER_GPU_TEST_COUNT_V8 H) (results gpu) testIndex
   }"

definition HelperDisplayDetails ::
    "'a headers_scheme \<Rightarrow> dcgmRunDiag \<Rightarrow> bool \<Rightarrow> nat list \<Rightarrow> nat \<Rightarrow>
     (nat \<Rightarrow> dcgmDiagResponsePerGpu) \<Rightarrow> written list option" where
  "HelperDisplayDetails H drd forceVerbose gpuIndices testIndex diagResults =
     (let verbose = (flags drd AND DCGM_RUN_FLAGS_VERBOSE H \<noteq> 0);
          displayInfo = (forceVerbose \<or> verbose);
          displayWarnings = (forceVerbose \<or> verbose)
      in do {
        warnings \<leftarrow> (if displayWarnings then
            for_each (\<lambda>gpuIndex.
              for_each (\<lambda>j. do {
                  res \<leftarrow> result_at H diagResults gpuIndex testIndex;
                  if msg (error res j) \<noteq> [] then do {
                    sanitized \<leftarrow> Sanitize (msg (error res j));
                    DisplayVerboseInfo ''Warning'' sanitized
                  } else Some []
                }) [0..<DCGM_MAX_ERRORS H])
              gpuIndices
          else Some []);
        infos \<leftarrow> (if displayInfo then
            for_each (\<lambda>gpuIndex. do {
                res \<leftarrow> result_at H diagResults gpuIndex testIndex;
                if info res \<noteq> [] then do {
                  sanitized \<leftarrow> Sanitize (info res);
                  DisplayVerboseInfo ''Info'' sanitized
                } else Some []
              })
              gpuIndices
          else Some []);
        Some (warnings @ infos)
      })"

record buckets =
  passed :: "nat list"
  failed :: "nat list"
  skipped :: "nat list"
  warned :: "nat list"

text \<open>The bucketing loop of \<open>HelperDisplayGpuResults\<close>, over the GPU indices left.\<close>

fun bucket_gpus ::
    "'a limits_scheme \<Rightarrow> (nat \<Rightarrow> dcgmDiagResponsePerGpu) \<Rightarrow> nat \<Rightarrow> nat list \<Rightarrow> buckets \<Rightarrow>
     buckets option" where
  "bucket_gpus H diagResults testIndex [] b = Some b"
| "bucket_gpus H diagResults testIndex (gpuIndex # rest) b = do {
     gpu \<leftarrow> array_at (DCGM_MAX_NUM_DEVICES H) diagResults gpuIndex;
     res \<leftarrow> array_at (DCGM_PER_GPU_TEST_COUNT_V8 H) (results gpu) testIndex;
     bucket_gpus H diagResults testIndex rest
       (if status res = DCGM_DIAG_RESULT_PASS then b\<lparr>passed := passed b @ [gpuId gpu]\<rparr>
        else if status res = DCGM_DIAG_RESULT_SKIP then b\<lparr>skipped := skipped b @ [gpuId gpu]\<rparr>
        else if status res = DCGM_DIAG_RESULT_WARN then b\<lparr>warned := warned b @ [gpuId gpu]\<rparr>
        else if status res = DCGM_DIAG_RESULT_FAIL then b\<lparr>failed := failed b @ [gpuId gpu]\<rparr>
        else b)
   }"

definition HelperBucketGpus ::
    "'a headers_scheme \<Rightarrow> nat \<Rightarrow> (nat \<Rightarrow> dcgmDiagResponsePerGpu) \<Rightarrow> nat list \<Rightarrow> buckets option" where
  "HelperBucketGpus H testIndex diagResults gpuIndices =
     bucket_gpus H diagResults
       (if testIndex = DCGM_CONTEXT_CREATE_INDEX H then 0 else testIndex)
       gpuIndices \<lparr> passed = [], failed = [], skipped = [], warned = [] \<rparr>"

text \<open>The ids of one bucket as they are written: a comma after each but the last, three
  blanks after the last.\<close>

fun gpu_ids :: "nat list \<Rightarrow> string" where
  "gpu_ids [] = []"
| "gpu_ids [g] = string_of_nat g @ ''   ''"
| "gpu_ids (g # gs) = string_of_nat g @ '', '' @ gpu_ids gs"

definition bucket_line :: "string \<Rightarrow> nat list \<Rightarrow> string" where
  "bucket_line word gs = word @ '' - GPU'' @ (if length gs = 1 then '': '' else ''s: '') @ gpu_ids gs"

definition HelperDisplayGpuResults ::
    "'a headers_scheme \<Rightarrow> dcgmRunDiag \<Rightarrow> string \<Rightarrow> nat \<Rightarrow> (nat \<Rightarrow> dcgmDiagResponsePerGpu) \<Rightarrow>
     nat list \<Rightarrow> written list option" where
  "HelperDisplayGpuResults H drd dataName testIndex0 diagResults gpuIndices =
     (let numGpus = length gpuIndices;
          displayName = HelperGetPluginName H drd testIndex0;
          testIndex = (if testIndex0 = DCGM_CONTEXT_CREATE_INDEX H then 0 else testIndex0)
      in do {
        b \<leftarrow> HelperBucketGpus H testIndex0 diagResults gpuIndices;
        if length (passed b) = numGpus then do {
          details \<leftarrow> HelperDisplayDetails H drd False gpuIndices testIndex diagResults;
          Some (Display displayName ''Pass - All'' # details)
        } else if length (skipped b) = numGpus then do {
          details \<leftarrow> HelperDisplayDetails H drd True gpuIndices testIndex diagResults;
          Some (Display displayName ''Skip - All'' # details)
        } else if length (failed b) = numGpus then do {
          details \<leftarrow> HelperDisplayDetails H drd True gpuIndices testIndex diagResults;
          Some (Display displayName ''Fail - All'' # details)
        } else if length (warned b) = numGpus then do {
          details \<leftarrow> HelperDisplayDetails H drd True gpuIndices testIndex diagResults;
          eud \<leftarrow> (if dataName = ''Diagnostic'' then do {
              gpu0 \<leftarrow> array_at (DCGM_MAX_NUM_DEVICES H) diagResults 0;
              Some [Display []
                (''  Code: ('' @ setw0 12 (string_of_nat (hwDiagnosticReturn gpu0)) @ '')'')]
            } else Some []);
          Some (Display displayName ''Warn - All'' # details @ eud)
        } else
          (let first0 = True;
               row1 = (if passed b \<noteq> []
                       then [Display displayName (bucket_line ''Pass'' (passed b))] else []);
               first1 = (first0 \<and> passed b = []);
               row2 = (if failed b \<noteq> []
                       then [Display (if first1 then displayName else [])
                               (bucket_line ''Fail'' (failed b))] else []);
               first2 = (first1 \<and> failed b = []);
               row3 = (if warned b \<noteq> []
                       then [Display (if first2 then displayName else [])
                               (bucket_line ''Warn'' (warned b))] else []);
               first3 = (first2 \<and> warned b = []);
               row4 = (if skipped b \<noteq> []
                       then [Display (if first3 then displayName else [])
                               (bucket_line ''Skip'' (skipped b))] else []);
               showWarnings = (failed b \<noteq> [] \<or> warned b \<noteq> [] \<or> skipped b \<noteq> [])
           in do {
             details \<leftarrow> HelperDisplayDetails H drd showWarnings gpuIndices testIndex diagResults;
             Some (row1 @ row2 @ row3 @ row4 @ details)
           })
      })"

text \<open>The loop of \<open>HelperDisplayHardware\<close> that looks for a GPU whose hardware diagnostic
  did not skip.\<close>

fun all_skipped :: "'a headers_scheme \<Rightarrow> (nat \<Rightarrow> dcgmDiagResponsePerGpu) \<Rightarrow> nat list \<Rightarrow> bool option" where
  "all_skipped H diagResults [] = Some True"
| "all_skipped H diagResults (gpuIndex # rest) = do {
     res \<leftarrow> result_at H diagResults gpuIndex (DCGM_DIAGNOSTIC_INDEX H);
     if status res \<noteq> DCGM_DIAG_RESULT_SKIP then Some False
     else all_skipped H diagResults rest
   }"

definition HelperDisplayHardware ::
    "'a headers_scheme \<Rightarrow> dcgmRunDiag \<Rightarrow> (nat \<Rightarrow> dcgmDiagResponsePerGpu) \<Rightarrow> nat list \<Rightarrow>
     written list option" where
  "HelperDisplayHardware H drd diagResults gpuIndices = do {
     memory \<leftarrow> (if strcasecmp_eq (testNames drd 0) (CTXCREATE_PLUGIN_NAME H)
       then HelperDisplayGpuResults H drd DISPLAY_CTXCREATE (DCGM_CONTEXT_CREATE_INDEX H)
              diagResults gpuIndices
       else HelperDisplayGpuResults H drd DISPLAY_MEMORY (DCGM_MEMORY_INDEX H)
              diagResults gpuIndices);
     skipped \<leftarrow> all_skipped H diagResults gpuIndices;
     diagnostic \<leftarrow> (if \<not> skipped
       then HelperDisplayGpuResults H drd (DIAGNOSTIC_PLUGIN_NAME H) (DCGM_DIAGNOSTIC_INDEX H)
              diagResults gpuIndices
       else Some []);
     pulse \<leftarrow> HelperDisplayGpuResults H drd (PULSE_TEST_PLUGIN_NAME H) (DCGM_PULSE_TEST_INDEX H)
       diagResults gpuIndices;
     Some (Stdout DIAG_HARDWARE # memory @ diagnostic @ pulse)
   }"

definition HelperDisplayIntegration ::
    "'a headers_scheme \<Rightarrow> dcgmRunDiag \<Rightarrow> (nat \<Rightarrow> dcgmDiagResponsePerGpu) \<Rightarrow> nat list \<Rightarrow>
     written list option" where
  "HelperDisplayIntegration H drd diagResults gpuIndices = do {
     pcie \<leftarrow> HelperDisplayGpuResults H drd (PCIE_PLUGIN_NAME H) (DCGM_PCI_INDEX H)
       diagResults gpuIndices;
     Some (Stdout DIAG_INTEGRATION # pcie)
   }"

definition HelperDisplayPerformance ::
    "'a headers_scheme \<Rightarrow> dcgmRunDiag \<Rightarrow> (nat \<Rightarrow> dcgmDiagResponsePerGpu) \<Rightarrow> nat list \<Rightarrow>
     written list option" where
  "HelperDisplayPerformance H drd diagResults gpuIndices = do {
     rows \<leftarrow> for_each
       (\<lambda>(dataName, testIndex). HelperDisplayGpuResults H drd dataName testIndex diagResults gpuIndices)
       [(SMSTRESS_PLUGIN_NAME H, DCGM_SM_STRESS_INDEX H),
        (TS_PLUGIN_NAME H, DCGM_TARGETED_STRESS_INDEX H),
        (TP_PLUGIN_NAME H, DCGM_TARGETED_POWER_INDEX H),
        (MEMBW_PLUGIN_NAME H, DCGM_MEMORY_BANDWIDTH_INDEX H),
        (MEMTEST_PLUGIN_NAME H, DCGM_MEMTEST_INDEX H),
        (EUD_PLUGIN_NAME H, DCGM_EUD_TEST_INDEX H)];
     Some (Stdout DIAG_STRESS # rows)
   }"

section \<open>The structured report\<close>

text \<open>
  A \<open>Json::Value\<close> is built by assignments through a path of member names and array
  indices, as in \<open>output[NVVS_NAME][NVVS_HEADERS][categoryIndex] = categoryEntry\<close>. A null value
  on the path becomes an object or an array, and an array grows with nulls up to the index.
\<close>

datatype sel = Member json_key | Index nat

fun assign :: "sel list \<Rightarrow> json \<Rightarrow> json \<Rightarrow> json" where
  "assign [] v doc = v"
| "assign (Member k # path) v doc =
     (let ms = (case doc of JObject ms \<Rightarrow> ms | _ \<Rightarrow> []);
          old = (case map_of ms k of Some x \<Rightarrow> x | None \<Rightarrow> JNull)
      in JObject (AList.update k (assign path v old) ms))"
| "assign (Index i # path) v doc =
     (let xs = (case doc of JArray xs \<Rightarrow> xs | _ \<Rightarrow> []);
          xs' = xs @ replicate (Suc i - length xs) JNull
      in JArray (xs'[i := assign path v (xs' ! i)]))"

record Diag =
  m_jsonOutput :: bool
  m_iterations :: nat
  m_hostname :: string
  m_drd :: dcgmRunDiag
  m_jsonTmpValue :: json

text \<open>The loop over the error slots of a level-one result, in \<open>HelperJsonAddBasicTests\<close>.\<close>

fun basic_warnings :: "dcgmDiagTestResult \<Rightarrow> nat list \<Rightarrow> json \<Rightarrow> json" where
  "basic_warnings res [] resultEntry = resultEntry"
| "basic_warnings res (i # is) resultEntry =
     basic_warnings res is
       (if msg (error res i) \<noteq> [] then
          (let e = error res i;
               resultEntry1 = assign [Member NVVS_GPU_ID] (JInt (error_gpuId e)) resultEntry;
               warningEntry = assign [Member NVVS_ERROR_SEVERITY] (JInt (int (severity e)))
                 (assign [Member NVVS_ERROR_CATEGORY] (JInt (int (category e)))
                   (assign [Member NVVS_ERROR_ID] (JInt (int (code e)))
                     (assign [Member NVVS_WARNINGS] (JString (msg e)) JNull)))
           in assign [Member NVVS_WARNINGS, Index i] warningEntry resultEntry1)
        else resultEntry)"

text \<open>The body of the loop over the level-one tests, for a test that is not left out:
  the category with the entry of test \<open>testIndex\<close> added. \<open>adjustment\<close> is 0 or -1.\<close>

definition basic_test_entry ::
    "'a headers_scheme \<Rightarrow> dcgmDiagResponse \<Rightarrow> nat \<Rightarrow> int \<Rightarrow> json \<Rightarrow> json option" where
  "basic_test_entry H diagResult testIndex adjustment categoryEntry = do {
     name \<leftarrow> (if testIndex < length levelOneTests then Some (levelOneTests ! testIndex) else None);
     let res = levelOneResults diagResult testIndex;
     let slot = nat (int testIndex + adjustment);
     let categoryEntry1 = assign [Member NVVS_TESTS, Index slot, Member NVVS_TEST_NAME] (JString name) categoryEntry;
     let resultEntry = basic_warnings res [0..<DCGM_MAX_ERRORS H]
           (assign [Member NVVS_STATUS] (JString (HelperDisplayDiagResult (status res))) JNull);
     Some (assign [Member NVVS_TESTS, Index slot, Member NVVS_RESULTS, Index 0] resultEntry categoryEntry1)
   }"

text \<open>The loop over the level-one tests.\<close>

fun basic_tests ::
    "'a headers_scheme \<Rightarrow> dcgmDiagResponse \<Rightarrow> nat list \<Rightarrow> int \<Rightarrow> json \<Rightarrow> json option" where
  "basic_tests H diagResult [] adjustment categoryEntry = Some categoryEntry"
| "basic_tests H diagResult (testIndex # rest) adjustment categoryEntry =
     (if testIndex = DCGM_SWTEST_CUDA_RUNTIME_LIBRARY H
         \<and> status (levelOneResults diagResult testIndex) = DCGM_DIAG_RESULT_NOT_RUN
      then basic_tests H diagResult rest (- 1) categoryEntry
      else (case basic_test_entry H diagResult testIndex adjustment categoryEntry of
              None \<Rightarrow> None
            | Some categoryEntry' \<Rightarrow> basic_tests H diagResult rest adjustment categoryEntry'))"

definition HelperJsonAddBasicTests ::
    "'a headers_scheme \<Rightarrow> json \<Rightarrow> nat \<Rightarrow> dcgmDiagResponse \<Rightarrow> (json \<times> nat) option" where
  "HelperJsonAddBasicTests H output' categoryIndex diagResult = do {
     categoryEntry \<leftarrow> basic_tests H diagResult [0..<levelOneTestCount diagResult] 0
       (assign [Member NVVS_HEADER] (JString DISPLAY_DEPLOYMENT) JNull);
     Some (assign [Member NVVS_NAME, Member NVVS_HEADERS, Index categoryIndex] categoryEntry output',
           Suc categoryIndex)
   }"

text \<open>The loop over the error slots of a per-GPU result, in \<open>HelperJsonAddResult\<close>.\<close>

fun gpu_warnings :: "dcgmDiagTestResult \<Rightarrow> nat list \<Rightarrow> json \<Rightarrow> json" where
  "gpu_warnings res [] resultEntry = resultEntry"
| "gpu_warnings res (j # js) resultEntry =
     gpu_warnings res js
       (if msg (error res j) \<noteq> [] then
          (let e = error res j;
               warningEntry = assign [Member NVVS_ERROR_SEVERITY] (JInt (int (severity e)))
                 (assign [Member NVVS_ERROR_CATEGORY] (JInt (int (category e)))
                   (assign [Member NVVS_ERROR_ID] (JInt (int (code e)))
                     (assign [Member NVVS_WARNING] (JString (msg e)) JNull)))
           in assign [Member NVVS_WARNINGS, Index j] warningEntry resultEntry)
        else resultEntry)"

text \<open>\<open>snprintf(buf, sizeof(buf), "%u", gpuIndex)\<close> with \<open>char buf[10]\<close> keeps nine characters.\<close>

definition HelperJsonAddResult ::
    "'a limits_scheme \<Rightarrow> dcgmDiagResponsePerGpu \<Rightarrow> json \<Rightarrow> nat \<Rightarrow> nat \<Rightarrow> nat \<Rightarrow> json \<times> bool" where
  "HelperJsonAddResult H gpuResult testEntry gpuIndex testIndex i =
     (let res = results gpuResult testIndex in
      if status res = DCGM_DIAG_RESULT_NOT_RUN then (testEntry, False)
      else
        (let buf = take 9 (string_of_nat gpuIndex);
             resultEntry1 = assign [Member NVVS_GPU_ID] (JString buf) JNull;
             resultEntry2 = assign [Member NVVS_STATUS]
               (JString (HelperDisplayDiagResult (status res))) resultEntry1;
             resultEntry3 = gpu_warnings res [0..<DCGM_MAX_ERRORS H] resultEntry2;
             resultEntry4 = (if info res \<noteq> []
               then assign [Member NVVS_INFO] (JString (info res)) resultEntry3 else resultEntry3)
         in (assign [Member NVVS_RESULTS, Index i] resultEntry4 testEntry, True)))"

text \<open>The inner loop of \<open>HelperJsonBuildOutput\<close>: the positions \<open>i\<close> of \<open>gpuIndices\<close> with the
  index found there.\<close>

fun plugin_results ::
    "'a limits_scheme \<Rightarrow> dcgmDiagResponse \<Rightarrow> nat \<Rightarrow> (nat \<times> nat) list \<Rightarrow> json \<Rightarrow> bool \<Rightarrow>
     (json \<times> bool) option" where
  "plugin_results H diagResult pluginIndex [] testEntry pluginRan = Some (testEntry, pluginRan)"
| "plugin_results H diagResult pluginIndex ((i, gpuIndex) # rest) testEntry pluginRan =
     (case array_at (DCGM_MAX_NUM_DEVICES H) (perGpuResponses diagResult) gpuIndex of
        None \<Rightarrow> None
      | Some gpu \<Rightarrow>
          plugin_results H diagResult pluginIndex rest
            (fst (HelperJsonAddResult H gpu testEntry gpuIndex pluginIndex i))
            (if snd (HelperJsonAddResult H gpu testEntry gpuIndex pluginIndex i) then True
             else pluginRan))"

record categories =
  hardware :: json
  integration :: json
  stress :: json
  hardwarePluginCount :: nat
  integrationPluginCount :: nat
  stressPluginCount :: nat

definition HelperJsonAddPlugin :: "json \<Rightarrow> nat \<Rightarrow> json \<Rightarrow> json \<times> nat" where
  "HelperJsonAddPlugin categoryEntry pluginCount testEntry =
     (assign [Member NVVS_TESTS, Index pluginCount] testEntry categoryEntry, Suc pluginCount)"

definition HelperJsonAddCategory :: "json \<Rightarrow> nat \<Rightarrow> json \<Rightarrow> nat \<Rightarrow> json \<times> nat" where
  "HelperJsonAddCategory output' categoryIndex categoryEntry categoryCount =
     (if 0 < categoryCount
      then (assign [Member NVVS_NAME, Member NVVS_HEADERS, Index categoryIndex] categoryEntry output',
            Suc categoryIndex)
      else (output', categoryIndex))"

text \<open>The \<open>switch\<close> that files the entry of a plugin that ran under its category.\<close>

definition add_to_category :: "'a headers_scheme \<Rightarrow> nat \<Rightarrow> json \<Rightarrow> categories \<Rightarrow> categories" where
  "add_to_category H pluginIndex testEntry cs =
     (if pluginIndex = DCGM_MEMORY_INDEX H \<or> pluginIndex = DCGM_DIAGNOSTIC_INDEX H
         \<or> pluginIndex = DCGM_PULSE_TEST_INDEX H \<or> pluginIndex = DCGM_EUD_TEST_INDEX H then
        cs\<lparr>hardware := fst (HelperJsonAddPlugin (hardware cs) (hardwarePluginCount cs) testEntry),
           hardwarePluginCount := snd (HelperJsonAddPlugin (hardware cs) (hardwarePluginCount cs) testEntry)\<rparr>
      else if pluginIndex = DCGM_PCI_INDEX H then
        cs\<lparr>integration := fst (HelperJsonAddPlugin (integration cs) (integrationPluginCount cs) testEntry),
           integrationPluginCount := snd (HelperJsonAddPlugin (integration cs) (integrationPluginCount cs) testEntry)\<rparr>
      else if pluginIndex = DCGM_SM_STRESS_INDEX H \<or> pluginIndex = DCGM_TARGETED_STRESS_INDEX H
         \<or> pluginIndex = DCGM_TARGETED_POWER_INDEX H
         \<or> pluginIndex = DCGM_MEMORY_BANDWIDTH_INDEX H \<or> pluginIndex = DCGM_MEMTEST_INDEX H then
        cs\<lparr>stress := fst (HelperJsonAddPlugin (stress cs) (stressPluginCount cs) testEntry),
           stressPluginCount := snd (HelperJsonAddPlugin (stress cs) (stressPluginCount cs) testEntry)\<rparr>
      else cs)"

text \<open>The body of the loop over the plugins.\<close>

definition plugin_entry ::
    "'a headers_scheme \<Rightarrow> Diag \<Rightarrow> dcgmDiagResponse \<Rightarrow> nat list \<Rightarrow> nat \<Rightarrow> categories \<Rightarrow>
     categories option" where
  "plugin_entry H D diagResult gpuIndices pluginIndex cs =
     (case plugin_results H diagResult pluginIndex (zip [0..<length gpuIndices] gpuIndices)
             (assign [Member NVVS_TEST_NAME]
                (JString (HelperGetPluginName H (m_drd D) pluginIndex)) JNull)
             False of
        None \<Rightarrow> None
      | Some (testEntry, pluginRan) \<Rightarrow>
          Some (if pluginRan then add_to_category H pluginIndex testEntry cs else cs))"

text \<open>The loop over the plugins.\<close>

fun plugins ::
    "'a headers_scheme \<Rightarrow> Diag \<Rightarrow> dcgmDiagResponse \<Rightarrow> nat list \<Rightarrow> nat list \<Rightarrow> categories \<Rightarrow>
     categories option" where
  "plugins H D diagResult gpuIndices [] cs = Some cs"
| "plugins H D diagResult gpuIndices (pluginIndex # rest) cs =
     (case plugin_entry H D diagResult gpuIndices pluginIndex cs of
        None \<Rightarrow> None
      | Some cs' \<Rightarrow> plugins H D diagResult gpuIndices rest cs')"

fun serials :: "'a headers_scheme \<Rightarrow> dcgmDiagResponse \<Rightarrow> nat list \<Rightarrow> json \<Rightarrow> json" where
  "serials H diagResult [] output' = output'"
| "serials H diagResult (i # is) output' =
     serials H diagResult is
       (if devSerials diagResult i \<noteq> DCGM_STR_BLANK H
        then assign [Member NVVS_GPU_SERIALS, Member (Key (string_of_nat i))]
               (JString (devSerials diagResult i)) output'
        else output')"

fun dev_ids :: "dcgmDiagResponse \<Rightarrow> nat list \<Rightarrow> json \<Rightarrow> json" where
  "dev_ids diagResult [] output' = output'"
| "dev_ids diagResult (i # is) output' =
     dev_ids diagResult is (assign [Member NVVS_GPU_DEV_IDS, Index i] (JString (devIds diagResult i)) output')"

text \<open>\<open>HelperJsonBuildOutput\<close>. Its first loop fills a local stream that is not read again
  and is left out.\<close>

definition HelperJsonBuildOutput ::
    "'a headers_scheme \<Rightarrow> Diag \<Rightarrow> json \<Rightarrow> dcgmDiagResponse \<Rightarrow> nat list \<Rightarrow> json option" where
  "HelperJsonBuildOutput H D output0 diagResult gpuIndices =
     (let cs0 = \<lparr> hardware = assign [Member NVVS_HEADER] (JString DISPLAY_HARDWARE) JNull,
                  integration = assign [Member NVVS_HEADER] (JString DISPLAY_INTEGRATION) JNull,
                  stress = assign [Member NVVS_HEADER] (JString DISPLAY_STRESS) JNull,
                  hardwarePluginCount = 0, integrationPluginCount = 0, stressPluginCount = 0 \<rparr>;
          output1 = assign [Member NVVS_VERSION_STR] (JString (dcgmVersion diagResult)) output0;
          output2 = assign [Member NVVS_DRIVER_VERSION] (JString (driverVersion diagResult)) output1;
          output3 = serials H diagResult [0..<DCGM_MAX_NUM_DEVICES H] output2;
          output4 = dev_ids diagResult [0..<gpuCount diagResult] output3
      in do {
        (output5, categoryIndex1) \<leftarrow> HelperJsonAddBasicTests H output4 0 diagResult;
        cs \<leftarrow> plugins H D diagResult gpuIndices [0..<DCGM_PER_GPU_TEST_COUNT_V8 H] cs0;
        let (output6, categoryIndex2) =
              HelperJsonAddCategory output5 categoryIndex1 (integration cs) (integrationPluginCount cs);
        let (output7, categoryIndex3) =
              HelperJsonAddCategory output6 categoryIndex2 (hardware cs) (hardwarePluginCount cs);
        let (output8, categoryIndex4) =
              HelperJsonAddCategory output7 categoryIndex3 (stress cs) (stressPluginCount cs);
        Some output8
      })"

section \<open>Running a diagnostic on the server\<close>

text \<open>
  The state outside the \<open>Diag\<close> object: the flags shared with the signal handler, the thread
  of the \<open>RemoteDiagExecutor\<close> that the supervisor started, and a record of what the program
  did towards the outside: what it wrote, the requests it dispatched, the abort requests
  (\<open>AbortDiag::Execute\<close>, each with the host name it was made for), the calls of \<open>dcgmStopDiagnostic\<close> after a timeout and the
  errors it logged. \<open>stop_returns\<close> is what the k-th such call of \<open>dcgmStopDiagnostic\<close>
  returns.
\<close>

datatype executor = NoExecutor | Running | HasExited dcgmReturn_t dcgmDiagResponse | Stopped

datatype log_entry = DiagnosticError nat dcgmReturn_t string | StopError dcgmReturn_t

record world =
  g_signalExit :: bool
  diag_stopDiagOnSignal :: bool
  diag_installed_sig_handlers :: bool
  rde :: executor
  written :: "written list"
  dispatched :: "dcgmRunDiag list"
  abort_requests :: "string list"
  stop_requests :: nat
  stop_returns :: "nat \<Rightarrow> dcgmReturn_t"
  logged :: "log_entry list"

text \<open>
  What happens around the supervisor while it runs: a signal is delivered to the process,
  or the remote call of the executor's thread returns with a code and a response.
\<close>

datatype event = Signal | Exit dcgmReturn_t dcgmDiagResponse

definition handle_signal_during_diag :: "world \<Rightarrow> world" where
  "handle_signal_during_diag w =
     (if diag_stopDiagOnSignal w then w\<lparr>g_signalExit := True\<rparr> else w)"

definition InstallSigHandlers :: "world \<Rightarrow> world" where
  "InstallSigHandlers w =
     (if diag_installed_sig_handlers w then w else w\<lparr>diag_installed_sig_handlers := True\<rparr>)"

definition happen :: "event \<Rightarrow> world \<Rightarrow> world" where
  "happen e w =
     (case e of
        Signal \<Rightarrow> handle_signal_during_diag w
      | Exit r response \<Rightarrow> (if rde w = Running then w\<lparr>rde := HasExited r response\<rparr> else w))"

text \<open>The events of one slot, in their order.\<close>

fun deliver :: "event list \<Rightarrow> world \<Rightarrow> world" where
  "deliver [] w = w"
| "deliver (e # es) w = deliver es (happen e w)"

text \<open>
  The schedule of a run is a list of slots, each with the events that happen before one
  statement of the supervisor that reads or writes the shared state: before the flag
  \<open>diag_stopDiagOnSignal\<close> is set, before each test of \<open>g_signalExit\<close>, before each test of
  \<open>HasExited()\<close> (the wait of 100 ms of the round before included), and before the flag is
  reset. A schedule that ends before the supervisor does stands for a run that is cut
  off, and the result is \<open>None\<close>.

  One round of the poll loop and the rest of it.
\<close>

definition killed :: "Diag \<Rightarrow> world \<Rightarrow> world" where
  "killed D w = w\<lparr>abort_requests := abort_requests w @ [m_hostname D], rde := Stopped\<rparr>"

fun poll ::
    "Diag \<Rightarrow> event list list \<Rightarrow> world \<Rightarrow> dcgmDiagResponse \<Rightarrow>
     (dcgmReturn_t \<times> dcgmDiagResponse \<times> world \<times> event list list) option" where
  "poll D [] w diagResult = None"
| "poll D [es1] w diagResult =
     (if g_signalExit (deliver es1 w)
      then Some (DCGM_ST_NVVS_KILLED, diagResult, killed D (deliver es1 w), [])
      else None)"
| "poll D (es1 # es2 # schedule) w diagResult =
     (if g_signalExit (deliver es1 w)
      then Some (DCGM_ST_NVVS_KILLED, diagResult, killed D (deliver es1 w), es2 # schedule)
      else (case rde (deliver es2 (deliver es1 w)) of
              HasExited r response \<Rightarrow> Some (r, response, deliver es2 (deliver es1 w), schedule)
            | _ \<Rightarrow> poll D schedule (deliver es2 (deliver es1 w)) diagResult))"

definition ExecuteDiagOnServer ::
    "Diag \<Rightarrow> dcgmDiagResponse \<Rightarrow> world \<Rightarrow> event list list \<Rightarrow>
     (dcgmReturn_t \<times> dcgmDiagResponse \<times> world \<times> event list list) option" where
  "ExecuteDiagOnServer D diagResult w schedule =
     (case schedule of
        [] \<Rightarrow> None
      | es0 # schedule1 \<Rightarrow>
          (case poll D schedule1
                  ((deliver es0 w)\<lparr>diag_stopDiagOnSignal := True, rde := Running,
                      dispatched := dispatched w @ [m_drd D]\<rparr>)
                  diagResult of
             None \<Rightarrow> None
           | Some (result, diagResult', w2, schedule2) \<Rightarrow>
               (case schedule2 of
                  [] \<Rightarrow> None
                | es3 # schedule3 \<Rightarrow>
                    Some (result, diagResult',
                          (deliver es3 w2)\<lparr>diag_stopDiagOnSignal := False, rde := NoExecutor\<rparr>,
                          schedule3))))"

section \<open>One diagnostic\<close>

definition HelperDisplayFailureMessage ::
    "'a headers_scheme \<Rightarrow> Diag \<Rightarrow> string \<Rightarrow> dcgmReturn_t \<Rightarrow> world \<Rightarrow> world" where
  "HelperDisplayFailureMessage H D errMsg result w =
     (let w1 = (if m_jsonOutput D
                then w\<lparr>written := written w @
                  [StdoutJson
                     (assign [Member NVVS_NAME, Member NVVS_RUNTIME_ERROR] (JString errMsg)
                       (assign [Member NVVS_NAME, Member NVVS_VERSION_STR] (JString (GetVersion H))
                          JNull)),
                   Stdout ''\<newline>'']\<rparr>
                else w\<lparr>written := written w @ [Stdout errMsg, Stdout ''\<newline>'']\<rparr>)
      in if result \<noteq> DCGM_ST_OK
         then w1\<lparr>logged := logged w1 @
                [DiagnosticError (groupId (m_drd D) mod 2 ^ 32) result errMsg]\<rparr>
         else w1)"

text \<open>\<open>HelperDisplayAsJson\<close>: the code returned, the new \<open>m_jsonTmpValue\<close> and the world.\<close>

definition HelperDisplayAsJson ::
    "'a headers_scheme \<Rightarrow> Diag \<Rightarrow> dcgmDiagResponse \<Rightarrow> nat list \<Rightarrow> world \<Rightarrow>
     (dcgmReturn_t \<times> json \<times> world) option" where
  "HelperDisplayAsJson H D diagResult gpuIndices w =
     (case HelperJsonBuildOutput H D JNull diagResult gpuIndices of
        None \<Rightarrow> None
      | Some output' \<Rightarrow>
          (if m_iterations D \<le> 1
           then Some (DCGM_ST_OK, m_jsonTmpValue D, w\<lparr>written := written w @ [StdoutJson output']\<rparr>)
           else Some (DCGM_ST_OK, output', w)))"

text \<open>The GPUs of the report: those of the request's list, each token through \<open>strtol\<close> and
  into an \<open>unsigned int\<close>, or those that ran.\<close>

definition gpuVec_of :: "'a headers_scheme \<Rightarrow> Diag \<Rightarrow> dcgmDiagResponse \<Rightarrow> nat list" where
  "gpuVec_of H D diagResult =
     (if 0 < length (gpuList (m_drd D))
      then map (\<lambda>s. nat (strtol H s mod 2 ^ 32)) (dcgmTokenizeString H (gpuList (m_drd D)) '','')
      else PopulateGpuList H diagResult [])"

definition text_report ::
    "'a headers_scheme \<Rightarrow> Diag \<Rightarrow> dcgmDiagResponse \<Rightarrow> nat list \<Rightarrow> written list option" where
  "text_report H D diagResult gpuVec = do {
     deployment \<leftarrow> HelperDisplayDeployment H diagResult;
     gpus \<leftarrow> (if 0 < length gpuVec then do {
         integration \<leftarrow> HelperDisplayIntegration H (m_drd D) (perGpuResponses diagResult) gpuVec;
         hardware \<leftarrow> HelperDisplayHardware H (m_drd D) (perGpuResponses diagResult) gpuVec;
         performance \<leftarrow> HelperDisplayPerformance H (m_drd D) (perGpuResponses diagResult) gpuVec;
         Some (integration @ hardware @ performance)
       } else Some []);
     Some ([Stdout ''Successfully ran diagnostic for group.'', Stdout ''\<newline>'', Stdout DIAG_HEADER]
           @ HelperDisplayVersionAndDevIds diagResult @ deployment @ gpus @ [Stdout DIAG_FOOTER])
   }"

text \<open>The message of \<open>RunDiagOnce\<close> for a code that is none of the three it names.\<close>

definition failure_message :: "'a headers_scheme \<Rightarrow> Diag \<Rightarrow> dcgmReturn_t \<Rightarrow> dcgmDiagResponse \<Rightarrow> string" where
  "failure_message H D result diagResult =
     (if msg (systemError diagResult) \<noteq> [] then msg (systemError diagResult)
      else ''Error: Unable to complete diagnostic for group '' @ string_of_nat (groupId (m_drd D) mod 2 ^ 32)
           @ ''. Return: ('' @ string_of_int (return_number H result) @ '') ''
           @ errorString H result @ ''.'')"

text \<open>\<open>RunDiagOnce\<close> from the return of \<open>ExecuteDiagOnServer\<close> on: the code returned, the
  new \<open>m_jsonTmpValue\<close> and the world.\<close>

definition report ::
    "'a headers_scheme \<Rightarrow> Diag \<Rightarrow> dcgmReturn_t \<Rightarrow> dcgmDiagResponse \<Rightarrow> world \<Rightarrow>
     (dcgmReturn_t \<times> json \<times> world) option" where
  "report H D result diagResult w =
     (if result = DCGM_ST_GROUP_INCOMPATIBLE then
        Some (result, m_jsonTmpValue D, HelperDisplayFailureMessage H D
          ''Error: Diagnostic can only be performed on a homogeneous group of GPUs.'' result w)
      else if result = DCGM_ST_NOT_SUPPORTED then
        Some (result, m_jsonTmpValue D, HelperDisplayFailureMessage H D
          ''Error: Diagnostic could not be run because the Tesla recommended driver is not being used.''
          result w)
      else if result = DCGM_ST_PAUSED then
        Some (result, m_jsonTmpValue D, HelperDisplayFailureMessage H D
          ''Error: Diagnostic could not be run while DCGM is paused.'' result w)
      else if result \<noteq> DCGM_ST_OK then
        (if result = DCGM_ST_TIMEOUT then
           (let ret = stop_returns w (stop_requests w);
                w1 = w\<lparr>stop_requests := Suc (stop_requests w)\<rparr>
            in if ret \<noteq> DCGM_ST_OK
               then Some (result, m_jsonTmpValue D,
                 HelperDisplayFailureMessage H D
                   (failure_message H D result diagResult
                      @ ''\<newline>Error: Could not stop the launched diagnostic.'')
                   result
                   (w1\<lparr>logged := logged w1 @ [StopError ret]\<rparr>))
               else Some (result, m_jsonTmpValue D,
                 HelperDisplayFailureMessage H D (failure_message H D result diagResult) result w1))
         else Some (result, m_jsonTmpValue D,
                 HelperDisplayFailureMessage H D (failure_message H D result diagResult) result w))
      else if m_jsonOutput D = False \<and> msg (systemError diagResult) \<noteq> [] then
        Some (DCGM_ST_NVVS_ERROR, m_jsonTmpValue D,
          HelperDisplayFailureMessage H D
            (''Error: '' @ msg (systemError diagResult) @ ''\<newline>'') result w)
      else
        (if m_jsonOutput D then
           (case HelperDisplayAsJson H D diagResult (gpuVec_of H D diagResult) w of
              None \<Rightarrow> None
            | Some (result', tmp, w') \<Rightarrow>
                Some (if result' = DCGM_ST_OK then GetFailureResult H diagResult else result', tmp, w'))
         else
           (case text_report H D diagResult (gpuVec_of H D diagResult) of
              None \<Rightarrow> None
            | Some rows \<Rightarrow>
                Some (GetFailureResult H diagResult, m_jsonTmpValue D,
                      w\<lparr>written := written w @ rows\<rparr>))))"

definition RunDiagOnce ::
    "'a headers_scheme \<Rightarrow> Diag \<Rightarrow> world \<Rightarrow> event list list \<Rightarrow>
     (dcgmReturn_t \<times> json \<times> world \<times> event list list) option" where
  "RunDiagOnce H D w schedule =
     (case ExecuteDiagOnServer D (InitializeDiagResponse H) (InstallSigHandlers w) schedule of
        None \<Rightarrow> None
      | Some (result, diagResult, w1, schedule1) \<Rightarrow>
          (case report H D result diagResult w1 of
             None \<Rightarrow> None
           | Some (ret, tmp, w2) \<Rightarrow> Some (ret, tmp, w2, schedule1)))"

section \<open>The iterations\<close>

text \<open>
  \<open>RunStartDiag\<close> is given over the function it calls for one diagnostic, \<open>once\<close>, which
  takes the \<open>Diag\<close> object, the world and the schedule and returns the code, the new
  \<open>m_jsonTmpValue\<close> (the one member that \<open>RunDiagOnce\<close> writes), the world and the rest of
  the schedule; \<open>None\<close> when it does not return. Beside its result the model keeps a record
  of the calls made: the request \<open>m_drd\<close> at each call and the code that came back.

  The body of the loop for iteration \<open>i\<close>, up to the return of the call.
\<close>

definition iteration ::
    "(Diag \<Rightarrow> world \<Rightarrow> event list list \<Rightarrow> (dcgmReturn_t \<times> json \<times> world \<times> event list list) option) \<Rightarrow>
     Diag \<Rightarrow> nat \<Rightarrow> json \<Rightarrow> world \<Rightarrow> event list list \<Rightarrow>
     (dcgmReturn_t \<times> Diag \<times> json \<times> world \<times> event list list) option" where
  "iteration once D i output' w schedule =
     (case once (D\<lparr>m_drd := (m_drd D)\<lparr>currentIteration := i\<rparr>\<rparr>)
             (if m_jsonOutput D = False
              then w\<lparr>written := written w @
                [Stdout (''\<newline>Running iteration '' @ string_of_nat (Suc i mod 2 ^ 32) @ '' of ''
                         @ string_of_nat (m_iterations D) @ ''...\<newline>'')]\<rparr>
              else w)
             schedule of
        None \<Rightarrow> None
      | Some (ret, tmp, w', schedule') \<Rightarrow>
          Some (ret, D\<lparr>m_drd := (m_drd D)\<lparr>currentIteration := i\<rparr>, m_jsonTmpValue := tmp\<rparr>,
                assign [Member NVVS_ITERATIONS, Index i] tmp output', w', schedule'))"

function iterations ::
    "(Diag \<Rightarrow> world \<Rightarrow> event list list \<Rightarrow> (dcgmReturn_t \<times> json \<times> world \<times> event list list) option) \<Rightarrow>
     'a headers_scheme \<Rightarrow> Diag \<Rightarrow> nat \<Rightarrow> json \<Rightarrow> world \<Rightarrow> event list list \<Rightarrow>
     (dcgmRunDiag \<times> dcgmReturn_t) list \<Rightarrow>
     (dcgmReturn_t \<times> Diag \<times> json \<times> world \<times> event list list \<times> (dcgmRunDiag \<times> dcgmReturn_t) list) option" where
  "iterations once H D i output' w schedule calls =
     (if i < m_iterations D then
        (case iteration once D i output' w schedule of
           None \<Rightarrow> None
         | Some (ret, D', output1, w', schedule') \<Rightarrow>
             if ret \<noteq> DCGM_ST_OK then
               Some (ret, D',
                     (if m_jsonOutput D' = True
                      then assign [Member NVVS_WARNING] (JString (errorString H ret))
                             (assign [Member NVVS_RESULT] (JString ''Fail'') output1)
                      else output1),
                     w', schedule', calls @ [(m_drd D', ret)])
             else iterations once H D' (Suc i) output1 w' schedule' (calls @ [(m_drd D', ret)]))
      else Some (DCGM_ST_OK, D, output', w, schedule, calls))"
  by pat_completeness auto
termination
  by (relation "measure (\<lambda>(once, H, D, i, rest). m_iterations D - i)")
     (auto simp: iteration_def split: option.splits)

declare iterations.simps [simp del]

text \<open>What \<open>RunStartDiag\<close> writes after the loop.\<close>

definition summary :: "'a headers_scheme \<Rightarrow> Diag \<Rightarrow> dcgmReturn_t \<Rightarrow> json \<Rightarrow> world \<Rightarrow> world" where
  "summary H D overallRet output' w =
     (if m_jsonOutput D = True then
        w\<lparr>written := written w @
          [StdoutJson (if overallRet = DCGM_ST_OK
                       then assign [Member NVVS_RESULT] (JString ''Pass'') output' else output'),
           Stdout ''\<newline>'']\<rparr>
      else if overallRet = DCGM_ST_OK then
        w\<lparr>written := written w @
          [Stdout (''Passed all '' @ string_of_nat (m_iterations D) @ '' runs of the diagnostic''),
           Stdout ''\<newline>'']\<rparr>
      else
        w\<lparr>written := written w @
          [Stdout (''Aborting the iterative runs of the diagnostic due to failure: ''
                   @ errorString H overallRet),
           Stdout ''\<newline>'']\<rparr>)"

definition RunStartDiag_with ::
    "(Diag \<Rightarrow> world \<Rightarrow> event list list \<Rightarrow> (dcgmReturn_t \<times> json \<times> world \<times> event list list) option) \<Rightarrow>
     'a headers_scheme \<Rightarrow> Diag \<Rightarrow> world \<Rightarrow> event list list \<Rightarrow>
     (dcgmReturn_t \<times> Diag \<times> world \<times> event list list \<times> (dcgmRunDiag \<times> dcgmReturn_t) list) option" where
  "RunStartDiag_with once H D w schedule =
     (if m_iterations D \<le> 1 then
        (case once D w schedule of
           None \<Rightarrow> None
         | Some (ret, tmp, w', schedule') \<Rightarrow>
             Some (ret, D\<lparr>m_jsonTmpValue := tmp\<rparr>, w', schedule', [(m_drd D, ret)]))
      else
        (case iterations once H (D\<lparr>m_drd := (m_drd D)\<lparr>totalIterations := m_iterations D\<rparr>\<rparr>)
                0 JNull w schedule [] of
           None \<Rightarrow> None
         | Some (overallRet, D', output', w', schedule', calls) \<Rightarrow>
             Some (overallRet, D', summary H D' overallRet output' w', schedule', calls)))"

definition RunStartDiag ::
    "'a headers_scheme \<Rightarrow> Diag \<Rightarrow> world \<Rightarrow> event list list \<Rightarrow>
     (dcgmReturn_t \<times> Diag \<times> world \<times> event list list \<times> (dcgmRunDiag \<times> dcgmReturn_t) list) option" where
  "RunStartDiag H D w schedule = RunStartDiag_with (RunDiagOnce H) H D w schedule"

section \<open>The statements of the specification, and worked examples\<close>

text \<open>Removing the whitespace at both ends, as a specification of the two loops.\<close>

definition trim :: "string \<Rightarrow> string" where
  "trim t = dropWhile isWhitespace (rev (dropWhile isWhitespace (rev t)))"

text \<open>The positions at which \<open>pat\<close> occurs in \<open>s\<close>, in ascending order.\<close>

definition occurrences :: "string \<Rightarrow> string \<Rightarrow> nat list" where
  "occurrences s pat = filter (\<lambda>i. take (length pat) (drop i s) = pat) [0..<Suc (length s)]"

text \<open>The specification's words: what follows the last occurrence of the delimiter,
  trimmed.\<close>

definition Sanitize_spec :: "string \<Rightarrow> string" where
  "Sanitize_spec s =
     trim (case occurrences s ''***'' of [] \<Rightarrow> s | p # ps \<Rightarrow> drop (last (p # ps) + 3) s)"

text \<open>The same with the first occurrence.\<close>

definition Sanitize_first :: "string \<Rightarrow> string" where
  "Sanitize_first s =
     trim (case occurrences s ''***'' of [] \<Rightarrow> s | p # ps \<Rightarrow> drop (p + 3) s)"

text \<open>
  An instance of the parameters for the worked examples: 32 device slots, 13 tests for
  each, 5 error slots for each result, and a priority lookup for which code 95 is of the
  isolate tier.
\<close>

fun tokens :: "char \<Rightarrow> string \<Rightarrow> string \<Rightarrow> string list" where
  "tokens d tok [] = (if tok = [] then [] else [tok])"
| "tokens d tok (c # cs) =
     (if c = d then (if tok = [] then [] else [tok]) @ tokens d [] cs
      else tokens d (tok @ [c]) cs)"

definition digits_value :: "string \<Rightarrow> int" where
  "digits_value s =
     foldl (\<lambda>n c. 10 * n + (int (of_char c) - 48)) 0
       (takeWhile (\<lambda>c. 48 \<le> (of_char c :: nat) \<and> (of_char c :: nat) \<le> 57) s)"

definition example_headers :: headers where
  "example_headers =
     \<lparr> DCGM_MAX_NUM_DEVICES = 32, DCGM_PER_GPU_TEST_COUNT_V8 = 13, DCGM_MAX_ERRORS = 5,
       dcgmErrorGetPriorityByCode = (\<lambda>c. if c = 95 then DCGM_ERROR_ISOLATE else DCGM_ERROR_TIER 1),
       DCGM_MEMORY_INDEX = 0, DCGM_DIAGNOSTIC_INDEX = 1, DCGM_PCI_INDEX = 2,
       DCGM_SM_STRESS_INDEX = 3, DCGM_TARGETED_STRESS_INDEX = 4, DCGM_TARGETED_POWER_INDEX = 5,
       DCGM_MEMORY_BANDWIDTH_INDEX = 6, DCGM_MEMTEST_INDEX = 7, DCGM_PULSE_TEST_INDEX = 8,
       DCGM_EUD_TEST_INDEX = 9, DCGM_CONTEXT_CREATE_INDEX = 14,
       DCGM_SWTEST_CUDA_RUNTIME_LIBRARY = 3, DCGM_RUN_FLAGS_VERBOSE = 1,
       CTXCREATE_PLUGIN_NAME = ''context_create'', DIAGNOSTIC_PLUGIN_NAME = ''diagnostic'',
       PULSE_TEST_PLUGIN_NAME = ''pulse_test'', PCIE_PLUGIN_NAME = ''pcie'',
       SMSTRESS_PLUGIN_NAME = ''sm_stress'', TS_PLUGIN_NAME = ''targeted_stress'',
       TP_PLUGIN_NAME = ''targeted_power'', MEMBW_PLUGIN_NAME = ''memory_bandwidth'',
       MEMTEST_PLUGIN_NAME = ''memtest'', EUD_PLUGIN_NAME = ''eud'',
       DCGM_STR_BLANK = ''<<<NULL>>>'',
       errorString = (\<lambda>r. ''error''),
       return_number = (\<lambda>r. case r of DCGM_ST_OK \<Rightarrow> 0 | DCGM_ST_OTHER n \<Rightarrow> n | _ \<Rightarrow> - 1),
       dcgmTokenizeString = (\<lambda>s d. tokens (hd d) [] s),
       strtol = digits_value,
       GetVersion = ''3'' \<rparr>"

definition no_error :: dcgmDiagErrorDetail where
  "no_error = \<lparr> msg = [], error_gpuId = 0, code = 0, category = 0, severity = 0 \<rparr>"

text \<open>A result with a status and nothing else; a failing result whose error slot \<open>j\<close>
  holds the code \<open>c\<close> and the message \<open>m\<close>.\<close>

definition result_of :: "dcgmDiagResult_t \<Rightarrow> dcgmDiagTestResult" where
  "result_of st = \<lparr> status = st, error = (\<lambda>_. no_error), info = [] \<rparr>"

definition failure_of :: "nat \<Rightarrow> nat \<Rightarrow> string \<Rightarrow> dcgmDiagTestResult" where
  "failure_of j c m =
     \<lparr> status = DCGM_DIAG_RESULT_FAIL,
       error = (\<lambda>_. no_error)(j := no_error\<lparr> msg := m, code := c \<rparr>), info = [] \<rparr>"

text \<open>A response in which no test ran and no slot is used, and a slot of GPU \<open>g\<close> with no
  test run.\<close>

definition idle_response :: dcgmDiagResponse where
  "idle_response =
     \<lparr> gpuCount = 0, levelOneTestCount = 0,
       levelOneResults = (\<lambda>_. result_of DCGM_DIAG_RESULT_NOT_RUN),
       perGpuResponses = (\<lambda>_. \<lparr> gpuId = 32, hwDiagnosticReturn = 0,
          results = (\<lambda>_. result_of DCGM_DIAG_RESULT_NOT_RUN) \<rparr>),
       systemError = no_error,
       devIds = (\<lambda>_. []), devSerials = (\<lambda>_. ''<<<NULL>>>''),
       dcgmVersion = ''3'', driverVersion = ''550'' \<rparr>"

definition idle_gpu :: "nat \<Rightarrow> dcgmDiagResponsePerGpu" where
  "idle_gpu g = \<lparr> gpuId = g, hwDiagnosticReturn = 0,
     results = (\<lambda>_. result_of DCGM_DIAG_RESULT_NOT_RUN) \<rparr>"

text \<open>Two GPUs ran test 2: GPU 0 failed it with an ordinary error (code 7), GPU 1 failed it
  with an error of the isolate tier in its second error slot.\<close>

definition isolate_response :: dcgmDiagResponse where
  "isolate_response = idle_response
     \<lparr> gpuCount := 2,
       perGpuResponses := (perGpuResponses idle_response)
         (0 := (idle_gpu 0)\<lparr> results := (results (idle_gpu 0))(2 := failure_of 0 7 ''hot'') \<rparr>,
          1 := (idle_gpu 1)\<lparr> results := (results (idle_gpu 1))(2 := failure_of 1 95 ''bad'') \<rparr>) \<rparr>"

text \<open>One GPU in the group, its slot filled in, and no per-GPU test run.\<close>

definition software_only_response :: dcgmDiagResponse where
  "software_only_response = idle_response
     \<lparr> gpuCount := 1, perGpuResponses := (perGpuResponses idle_response)(0 := idle_gpu 0) \<rparr>"

text \<open>The value column of a row of the table.\<close>

fun row_info :: "written \<Rightarrow> string" where
  "row_info (Display name value) = value"
| "row_info w = []"

text \<open>The ids stored in the slots of those GPUs of \<open>gpuIndices\<close> whose result for test
  \<open>testIndex\<close> has status \<open>st\<close>, in the order of \<open>gpuIndices\<close>.\<close>

definition with_status ::
    "(nat \<Rightarrow> dcgmDiagResponsePerGpu) \<Rightarrow> nat \<Rightarrow> dcgmDiagResult_t \<Rightarrow> nat list \<Rightarrow> nat list" where
  "with_status diagResults testIndex st gpuIndices =
     map (\<lambda>g. gpuId (diagResults g))
       (filter (\<lambda>g. status (results (diagResults g) testIndex) = st) gpuIndices)"

text \<open>The specification's words: the GPU \<open>g\<close> appears in exactly one of the four buckets.\<close>

definition in_exactly_one_bucket :: "buckets \<Rightarrow> nat \<Rightarrow> bool" where
  "in_exactly_one_bucket b g \<longleftrightarrow>
     length (filter (\<lambda>bucket. g \<in> set bucket) [passed b, failed b, warned b, skipped b]) = 1"

text \<open>Reading a member of a JSON object.\<close>

definition member :: "json \<Rightarrow> json_key \<Rightarrow> json" where
  "member doc k =
     (case doc of
        JObject ms \<Rightarrow> (case map_of ms k of Some v \<Rightarrow> v | None \<Rightarrow> JNull)
      | _ \<Rightarrow> JNull)"

text \<open>A request for the group, with no list of GPUs and no flag; GPU 0 passed the memory
  test (index 0) and ran no other; GPU 0 ended the PCIe test (index 2) with a warning and
  ran no other.\<close>

definition example_request :: dcgmRunDiag where
  "example_request =
     \<lparr> groupId = 1, gpuList = [], testNames = (\<lambda>_. []), flags = 0,
       totalIterations = 0, currentIteration = 0 \<rparr>"

definition memory_only_response :: dcgmDiagResponse where
  "memory_only_response = idle_response
     \<lparr> gpuCount := 1,
       perGpuResponses := (perGpuResponses idle_response)
         (0 := (idle_gpu 0)\<lparr> results := (results (idle_gpu 0))(0 := result_of DCGM_DIAG_RESULT_PASS) \<rparr>) \<rparr>"

definition pcie_warn_response :: dcgmDiagResponse where
  "pcie_warn_response = idle_response
     \<lparr> gpuCount := 1,
       perGpuResponses := (perGpuResponses idle_response)
         (0 := (idle_gpu 0)\<lparr> results := (results (idle_gpu 0))(2 := result_of DCGM_DIAG_RESULT_WARN) \<rparr>) \<rparr>"

text \<open>The ten level-one tests were reported, and the persistence-mode check (index 5)
  ended with a warning.\<close>

definition persistence_warn_response :: dcgmDiagResponse where
  "persistence_warn_response = idle_response
     \<lparr> levelOneTestCount := 10,
       levelOneResults := (levelOneResults idle_response)(5 := result_of DCGM_DIAG_RESULT_WARN) \<rparr>"

text \<open>
  A \<open>Diag\<close> object for one run with text output; a world in which nothing has happened
  yet; the same world once the supervisor has armed the cancellation and started the
  executor; and a response that reports a system error.
\<close>

definition example_diag :: Diag where
  "example_diag =
     \<lparr> m_jsonOutput = False, m_iterations = 1, m_hostname = ''localhost'',
       m_drd = example_request, m_jsonTmpValue = JNull \<rparr>"

definition quiet_world :: world where
  "quiet_world =
     \<lparr> g_signalExit = False, diag_stopDiagOnSignal = False, diag_installed_sig_handlers = False,
       rde = NoExecutor, written = [], dispatched = [], abort_requests = [],
       stop_requests = 0, stop_returns = (\<lambda>_. DCGM_ST_OK), logged = [] \<rparr>"

definition armed_world :: world where
  "armed_world = quiet_world
     \<lparr> diag_stopDiagOnSignal := True, diag_installed_sig_handlers := True, rde := Running,
       dispatched := [example_request] \<rparr>"

definition system_error_response :: dcgmDiagResponse where
  "system_error_response = idle_response \<lparr> systemError := no_error \<lparr> msg := ''nvvs crashed'' \<rparr> \<rparr>"


text \<open>
  The vocabulary for the poll loop over a schedule \<open>sched\<close> of slots, numbered from 0. The
  world in which the loop is entered, after the events \<open>es0\<close> before the run arms itself;
  the world after the slots up to slot \<open>k\<close>; whether the executor has exited; and whether
  the test that follows slot \<open>k\<close> finds what it looks for: the test of the cancellation
  flag after a slot of even number, the test of \<open>HasExited()\<close> after a slot of odd number.
\<close>

definition entered :: "Diag \<Rightarrow> world \<Rightarrow> event list \<Rightarrow> world" where
  "entered D w es0 =
     (deliver es0 w)\<lparr>diag_stopDiagOnSignal := True, rde := Running,
        dispatched := dispatched w @ [m_drd D]\<rparr>"

definition after :: "world \<Rightarrow> event list list \<Rightarrow> nat \<Rightarrow> world" where
  "after w sched k = foldl (\<lambda>w es. deliver es w) w (take (Suc k) sched)"

definition exited :: "world \<Rightarrow> bool" where
  "exited w = (case rde w of HasExited r response \<Rightarrow> True | _ \<Rightarrow> False)"

definition fires :: "world \<Rightarrow> event list list \<Rightarrow> nat \<Rightarrow> bool" where
  "fires w sched k = (if even k then g_signalExit (after w sched k) else exited (after w sched k))"

section \<open>Properties: classification\<close>

lemma scan_errors_eq:
  "scan_errors H err js ret =
     (if list_ex (\<lambda>j. dcgmErrorGetPriorityByCode H (code (err j)) = DCGM_ERROR_ISOLATE) js
      then Returned DCGM_ST_NVVS_ISOLATE_ERROR
      else Ended (if js = [] then ret else DCGM_ST_NVVS_ERROR))"
  by (induction js arbitrary: ret) auto

lemma scan_result_eq:
  "0 < DCGM_MAX_ERRORS H \<Longrightarrow> scan_result H res ret =
     (if isolate_result H res then Returned DCGM_ST_NVVS_ISOLATE_ERROR
      else Ended (if status res = DCGM_DIAG_RESULT_FAIL then DCGM_ST_NVVS_ERROR else ret))"
  by (simp add: scan_result_def isolate_result_def scan_errors_eq)

lemma isolate_result_fails: "isolate_result H res \<Longrightarrow> status res = DCGM_DIAG_RESULT_FAIL"
  by (simp add: isolate_result_def)

lemma scan_levelOne_eq:
  "0 < DCGM_MAX_ERRORS H \<Longrightarrow> scan_levelOne H r is ret =
     (if list_ex (isolate_result H) (map (levelOneResults r) is)
      then Returned DCGM_ST_NVVS_ISOLATE_ERROR
      else Ended (if list_ex (\<lambda>res. status res = DCGM_DIAG_RESULT_FAIL) (map (levelOneResults r) is)
                  then DCGM_ST_NVVS_ERROR else ret))"
  by (induction "is" arbitrary: ret) (auto simp: scan_result_eq dest: isolate_result_fails)

lemma scan_tests_eq:
  "0 < DCGM_MAX_ERRORS H \<Longrightarrow> scan_tests H gpu js ret =
     (if list_ex (isolate_result H) (map (results gpu) js)
      then Returned DCGM_ST_NVVS_ISOLATE_ERROR
      else Ended (if list_ex (\<lambda>res. status res = DCGM_DIAG_RESULT_FAIL) (map (results gpu) js)
                  then DCGM_ST_NVVS_ERROR else ret))"
  by (induction js arbitrary: ret) (auto simp: scan_result_eq dest: isolate_result_fails)

lemma scan_devices_eq:
  "0 < DCGM_MAX_ERRORS H \<Longrightarrow> scan_devices H r is ret =
     (if list_ex (isolate_result H)
           (concat (map (\<lambda>i. map (results (perGpuResponses r i)) [0..<DCGM_PER_GPU_TEST_COUNT_V8 H]) is))
      then Returned DCGM_ST_NVVS_ISOLATE_ERROR
      else Ended (if list_ex (\<lambda>res. status res = DCGM_DIAG_RESULT_FAIL)
           (concat (map (\<lambda>i. map (results (perGpuResponses r i)) [0..<DCGM_PER_GPU_TEST_COUNT_V8 H]) is))
         then DCGM_ST_NVVS_ERROR else ret))"
proof (induction "is" arbitrary: ret)
  case Nil
  then show ?case by simp
next
  case (Cons i "is")
  show ?case
    using Cons.prems by (simp add: scan_tests_eq Cons.IH)
qed

text \<open>
  C1. Whatever the response: when one of the results scanned (the level-one results up to
  \<open>levelOneTestCount\<close> and every per-GPU result of every slot) has failing status and an
  error slot whose code resolves to the isolate tier, \<open>GetFailureResult\<close> returns the
  isolate-error code, wherever that result stands; otherwise, when some result fails, it
  returns the generic diagnostic error; and with no failing result it returns OK. The array
  of error slots has at least one element.
\<close>

theorem GetFailureResult_classifies:
  assumes "0 < DCGM_MAX_ERRORS H"
  shows "GetFailureResult H diagResult =
     (if list_ex (isolate_result H) (all_results H diagResult) then DCGM_ST_NVVS_ISOLATE_ERROR
      else if list_ex (\<lambda>res. status res = DCGM_DIAG_RESULT_FAIL) (all_results H diagResult)
        then DCGM_ST_NVVS_ERROR
      else DCGM_ST_OK)"
  unfolding GetFailureResult_def all_results_def
  using assms by (simp add: scan_levelOne_eq scan_devices_eq)

theorem GetFailureResult_classifies_witness:
  "0 < DCGM_MAX_ERRORS example_headers \<and>
   GetFailureResult example_headers isolate_response = DCGM_ST_NVVS_ISOLATE_ERROR"
proof -
  have h: "0 < DCGM_MAX_ERRORS example_headers"
    by (simp add: example_headers_def)
  have e: "list_ex (isolate_result example_headers) (all_results example_headers isolate_response)"
    by code_simp
  show ?thesis
    using h e GetFailureResult_classifies [OF h, of isolate_response] by simp
qed

section \<open>Properties: the GPUs that ran\<close>

lemma someTestRan_eq:
  "someTestRan gpu js = list_ex (\<lambda>j. status (results gpu j) \<noteq> DCGM_DIAG_RESULT_NOT_RUN) js"
  by (induction js) auto

lemma PopulateGpuList_from_eq:
  "i \<le> DCGM_MAX_NUM_DEVICES H \<Longrightarrow>
   PopulateGpuList_from H r i gpuVec =
     gpuVec @ take (gpuCount r - length gpuVec)
       (filter (\<lambda>i. gpuId (perGpuResponses r i) \<noteq> DCGM_MAX_NUM_DEVICES H \<and>
                list_ex (\<lambda>j. status (results (perGpuResponses r i) j) \<noteq> DCGM_DIAG_RESULT_NOT_RUN)
                  [0..<DCGM_PER_GPU_TEST_COUNT_V8 H]) [i..<DCGM_MAX_NUM_DEVICES H])"
proof (induction H r i gpuVec rule: PopulateGpuList_from.induct)
  case (1 H r i gpuVec)
  show ?case
  proof (cases "i < DCGM_MAX_NUM_DEVICES H \<and> length gpuVec < gpuCount r")
    case False
    then show ?thesis
      using "1.prems" by (subst PopulateGpuList_from.simps) auto
  next
    case True
    then have up: "[i..<DCGM_MAX_NUM_DEVICES H] = i # [Suc i..<DCGM_MAX_NUM_DEVICES H]"
      by (simp add: upt_conv_Cons)
    have le: "Suc i \<le> DCGM_MAX_NUM_DEVICES H" using True by simp
    obtain k where k: "gpuCount r - length gpuVec = Suc k"
      using True by (metis Suc_diff_Suc)
    have k': "gpuCount r - Suc (length gpuVec) = k" using k by simp
    show ?thesis
      using True "1.IH"(1)[OF True _ _ le] "1.IH"(2)[OF True _ _ le] "1.IH"(3)[OF True _ le]
      by (subst PopulateGpuList_from.simps) (simp add: up someTestRan_eq k k')
  qed
qed

text \<open>
  C3, as the code has it. For a response with \<open>gpuCount = k\<close>, \<open>PopulateGpuList\<close> (the
  derivation used when the request names no GPUs) yields, in ascending order, the slot
  indices whose sentinel id was overwritten and at which at least one test has a status
  other than not-run, up to the first \<open>k\<close> of them; so at most \<open>k\<close> indices.
\<close>

theorem PopulateGpuList_selects:
  "PopulateGpuList H diagResult [] = take (gpuCount diagResult) (ran_slots H diagResult) \<and>
   length (PopulateGpuList H diagResult []) \<le> gpuCount diagResult"
  by (simp add: PopulateGpuList_def PopulateGpuList_from_eq ran_slots_def)

text \<open>
  C3 as stated fails: slot 0 was overwritten with the id of the one GPU of the group, no
  per-GPU test ran on it, and the derived list is empty.
\<close>

theorem PopulateGpuList_counterexample:
  "overwritten_slots example_headers software_only_response = [0] \<and>
   gpuCount software_only_response = 1 \<and>
   PopulateGpuList example_headers software_only_response [] = []"
  by code_simp

section \<open>Properties: sanitization\<close>

lemma remove_trailing_eq:
  "remove_trailing s = Some (rev (dropWhile isWhitespace (rev s)))"
proof (induction s rule: remove_trailing.induct)
  case (1 s)
  show ?case
  proof (cases "s = []")
    case True
    then show ?thesis by (subst remove_trailing.simps) simp
  next
    case False
    then obtain xs x where s: "s = xs @ [x]"
      by (metis rev_exhaust)
    have a: "at s (length s - 1) = Some x" by (simp add: s at_def)
    have e: "erase s (length s - 1) = Some xs" by (simp add: s erase_def)
    show ?thesis
    proof (cases "isWhitespace x")
      case True
      have "remove_trailing s = remove_trailing xs"
        using False a e True by (subst remove_trailing.simps) simp
      also have "\<dots> = Some (rev (dropWhile isWhitespace (rev xs)))"
        using "1.IH"[OF _ a True e] False by simp
      finally show ?thesis using True by (simp add: s)
    next
      case nw: False
      have "remove_trailing s = Some s"
        using False a nw by (subst remove_trailing.simps) simp
      then show ?thesis using nw by (simp add: s)
    qed
  qed
qed

lemma skip_leading_eq:
  "pos < length s \<Longrightarrow> \<not> isWhitespace (last s) \<Longrightarrow>
   skip_leading s pos = Some (pos + length (takeWhile isWhitespace (drop pos s)))"
proof (induction s pos rule: skip_leading.induct)
  case (1 s pos)
  have a: "at s pos = Some (s ! pos)" using "1.prems" by (simp add: at_def)
  have n0: "s \<noteq> []" using "1.prems" by auto
  have d: "drop pos s = s ! pos # drop (Suc pos) s"
    using "1.prems" by (simp add: Cons_nth_drop_Suc)
  show ?case
  proof (cases "isWhitespace (s ! pos)")
    case True
    have "Suc pos < length s"
    proof (rule ccontr)
      assume "\<not> Suc pos < length s"
      then have "pos = length s - 1" using "1.prems" by simp
      then have "s ! pos = last s" using "1.prems" by (metis last_conv_nth length_greater_0_conv less_nat_zero_code list.size(3))
      then show False using True "1.prems" by simp
    qed
    moreover have "0 < length s" using "1.prems" by (cases s) auto
    ultimately have "skip_leading s (Suc pos) = Some (Suc pos + length (takeWhile isWhitespace (drop (Suc pos) s)))"
      using "1.IH"[OF _ a True] "1.prems" by blast
    moreover have "skip_leading s pos = skip_leading s (Suc pos)"
      using n0 a True by (subst skip_leading.simps) simp
    ultimately show ?thesis using True d by simp
  next
    case False
    have "skip_leading s pos = Some pos"
      using n0 a False by (subst skip_leading.simps) simp
    then show ?thesis using False d by simp
  qed
qed

lemma last_rev_dropWhile:
  "rev (dropWhile P (rev s)) \<noteq> [] \<Longrightarrow> \<not> P (last (rev (dropWhile P (rev s))))"
  by (metis hd_dropWhile last_rev rev_is_Nil_conv rev_rev_ident)

lemma trim_loops:
  "do { sanitized \<leftarrow> remove_trailing t; pos \<leftarrow> skip_leading sanitized 0; substr sanitized pos } = Some (trim t)"
proof -
  define u where "u = rev (dropWhile isWhitespace (rev t))"
  have ru: "remove_trailing t = Some u" by (simp add: u_def remove_trailing_eq)
  have tr: "trim t = dropWhile isWhitespace u" by (simp add: trim_def u_def)
  show ?thesis
  proof (cases "u = []")
    case True
    have "skip_leading u 0 = Some 0" using True by (subst skip_leading.simps) simp
    then show ?thesis using True by (simp add: ru tr substr_def)
  next
    case False
    then have "\<not> isWhitespace (last u)"
      unfolding u_def by (rule last_rev_dropWhile)
    then have "skip_leading u 0 = Some (length (takeWhile isWhitespace u))"
      using skip_leading_eq[of 0 u] False by simp
    moreover have "length (takeWhile isWhitespace u) \<le> length u"
      by (rule length_takeWhile_le)
    ultimately show ?thesis
      by (simp add: ru tr substr_def dropWhile_eq_drop)
  qed
qed

lemma occurrences_Cons:
  "occurrences (c # cs) pat =
     (if take (length pat) (c # cs) = pat then [0] else []) @ map Suc (occurrences cs pat)"
proof -
  have "[0..<Suc (length (c # cs))] = 0 # map Suc [0..<Suc (length cs)]"
    by (simp add: upt_conv_Cons map_Suc_upt del: upt_Suc)
  then show ?thesis
    by (simp add: occurrences_def filter_map comp_def del: upt_Suc)
qed

lemma occurrences_Nil: "occurrences [] pat = (if pat = [] then [0] else [])"
  by (auto simp: occurrences_def)

lemma find_from_occurrences:
  "find_from s pat pos = (case occurrences s pat of [] \<Rightarrow> None | p # ps \<Rightarrow> Some (pos + p))"
proof (induction s arbitrary: pos)
  case Nil
  then show ?case by (simp add: occurrences_Nil)
next
  case (Cons c cs)
  then show ?case by (simp add: occurrences_Cons split: list.splits)
qed

lemma occurrences_bound:
  assumes "pat \<noteq> []" and "p \<in> set (occurrences s pat)"
  shows "p + length pat \<le> length s"
proof -
  have "take (length pat) (drop p s) = pat"
    using assms(2) by (simp add: occurrences_def del: upt_Suc)
  then have "length (take (length pat) (drop p s)) = length pat" by simp
  then have 1: "length pat \<le> length s - p" by simp
  have 2: "0 < length pat" using assms(1) by simp
  from 1 2 show ?thesis by arith
qed

lemma Sanitize_eq: "Sanitize s = Some (Sanitize_first s)"
proof (cases "occurrences s ''***''")
  case Nil
  then have "find_str s ''***'' = None" by (simp add: find_str_def find_from_occurrences)
  then show ?thesis using Nil trim_loops[of s] by (simp add: Sanitize_def Sanitize_first_def)
next
  case (Cons p ps)
  then have f: "find_str s ''***'' = Some p" by (simp add: find_str_def find_from_occurrences)
  have "p \<in> set (occurrences s ''***'')" using Cons by simp
  then have "p + length ''***'' \<le> length s" by (rule occurrences_bound[rotated]) simp_all
  then have "substr s (p + 3) = Some (drop (p + 3) s)" by (simp add: substr_def)
  then show ?thesis using f Cons trim_loops[of "drop (p + 3) s"]
    by (simp add: Sanitize_def Sanitize_first_def)
qed

lemma trim_fixed:
  assumes "t = [] \<or> (\<not> isWhitespace (hd t) \<and> \<not> isWhitespace (last t))"
  shows "trim t = t"
proof (cases "t = []")
  case True
  then show ?thesis by (simp add: trim_def)
next
  case False
  then have h: "\<not> isWhitespace (hd t)" and l: "\<not> isWhitespace (last t)" using assms by auto
  have "dropWhile isWhitespace (rev t) = rev t"
    using False l by (cases "rev t") (auto simp: hd_rev[symmetric] simp del: hd_rev)
  moreover have "dropWhile isWhitespace t = t" using False h by (cases t) auto
  ultimately show ?thesis by (simp add: trim_def)
qed

lemma trim_ends:
  "trim x = [] \<or> (\<not> isWhitespace (hd (trim x)) \<and> \<not> isWhitespace (last (trim x)))"
proof (cases "trim x = []")
  case True
  then show ?thesis by simp
next
  case False
  define u where "u = rev (dropWhile isWhitespace (rev x))"
  have tr: "trim x = dropWhile isWhitespace u" by (simp add: trim_def u_def)
  have une: "u \<noteq> []" using False tr by auto
  have "\<not> isWhitespace (last u)" using une unfolding u_def by (rule last_rev_dropWhile)
  moreover have "last (dropWhile isWhitespace u) = last u"
    using False tr by (metis append_Nil2 last_appendR takeWhile_dropWhile_id)
  moreover have "\<not> isWhitespace (hd (dropWhile isWhitespace u))"
    using False tr by (metis hd_dropWhile)
  ultimately show ?thesis using tr by simp
qed

lemma trim_idem: "trim (trim x) = trim x"
  by (rule trim_fixed) (rule trim_ends)

lemma length_trim: "length (trim x) \<le> length x"
proof -
  have "length (trim x) \<le> length (rev (dropWhile isWhitespace (rev x)))"
    unfolding trim_def by (rule length_dropWhile_le)
  also have "\<dots> \<le> length x"
    using length_dropWhile_le[of isWhitespace "rev x"] by simp
  finally show ?thesis .
qed

lemma Sanitize_first_fixed:
  "Sanitize_first (trim x) = trim x \<longleftrightarrow> occurrences (trim x) ''***'' = []"
proof (cases "occurrences (trim x) ''***''")
  case Nil
  then show ?thesis by (simp add: Sanitize_first_def trim_idem)
next
  case (Cons p ps)
  have "p \<in> set (occurrences (trim x) ''***'')" using Cons by simp
  then have b: "p + length ''***'' \<le> length (trim x)" by (rule occurrences_bound[rotated]) simp_all
  have "length (Sanitize_first (trim x)) \<le> length (drop (p + 3) (trim x))"
    using Cons by (simp add: Sanitize_first_def length_trim del: length_drop)
  also have "\<dots> < length (trim x)" using b by simp
  finally have "Sanitize_first (trim x) \<noteq> trim x" by auto
  then show ?thesis using Cons by simp
qed

text \<open>
  C5, as the code has it. For every string, \<open>Sanitize\<close> returns (no exception is thrown)
  what follows the first occurrence of the delimiter \<open>***\<close> when there is one, the whole
  string otherwise, with the whitespace (space, tab, newline, carriage return, form feed)
  at both ends removed.
\<close>

theorem Sanitize_after_first_delimiter: "Sanitize s = Some (Sanitize_first s)"
  by (rule Sanitize_eq)

text \<open>
  C5 as stated fails on a string with two delimiters: the code keeps what follows the
  first, the claim what follows the last.
\<close>

theorem Sanitize_last_delimiter_counterexample:
  "Sanitize ''a***b***c'' = Some ''b***c'' \<and> Sanitize_spec ''a***b***c'' = ''c''"
  by code_simp

text \<open>
  C6, as the code has it. A second pass of \<open>Sanitize\<close> over a sanitized string returns it
  unchanged exactly when the sanitized string holds no delimiter \<open>***\<close>.
\<close>

theorem Sanitize_idempotent_iff:
  "\<exists>t. Sanitize s = Some t \<and> (Sanitize t = Some t \<longleftrightarrow> occurrences t ''***'' = [])"
proof -
  obtain x where "Sanitize_first s = trim x"
    unfolding Sanitize_first_def by blast
  then show ?thesis
    using Sanitize_first_fixed[of x] by (simp add: Sanitize_eq)
qed

text \<open>C6 as stated fails on a string with two delimiters: the second pass strips again.\<close>

theorem Sanitize_idempotent_counterexample:
  "Sanitize ''a***b***c'' = Some ''b***c'' \<and> Sanitize ''b***c'' = Some ''c''"
  by code_simp

section \<open>Properties: the text and the structured report\<close>

lemma DisplayVerboseInfo_from_rows:
  "\<exists>rows. DisplayVerboseInfo_from name message pos = Some rows \<and>
     concat (map row_info rows) = drop pos message \<and>
     list_all (\<lambda>r. length (row_info r) \<le> DATA_INFO_TAG_LEN) rows"
proof (induction name message pos rule: DisplayVerboseInfo_from.induct)
  case (1 name message pos)
  show ?case
  proof (cases "pos < length message")
    case False
    then show ?thesis by (subst DisplayVerboseInfo_from.simps) simp
  next
    case True
    have f: "substr_n message pos DATA_INFO_TAG_LEN = Some (take DATA_INFO_TAG_LEN (drop pos message))"
      using True by (simp add: substr_n_def)
    from "1.IH"[OF True f] obtain rest where
      r: "DisplayVerboseInfo_from name message (pos + DATA_INFO_TAG_LEN) = Some rest"
      and c: "concat (map row_info rest) = drop (pos + DATA_INFO_TAG_LEN) message"
      and l: "list_all (\<lambda>r. length (row_info r) \<le> DATA_INFO_TAG_LEN) rest"
      by blast
    have d: "take DATA_INFO_TAG_LEN (drop pos message) @ concat (map row_info rest) = drop pos message"
      unfolding c by (simp only: add.commute[of pos] drop_drop[symmetric] append_take_drop_id)
    have "DisplayVerboseInfo_from name message pos =
        Some (Display (if pos = 0 then name else []) (take DATA_INFO_TAG_LEN (drop pos message)) # rest)"
      using True f r by (subst DisplayVerboseInfo_from.simps) simp
    then show ?thesis using l d by simp
  qed
qed

text \<open>
  C9. For every message, \<open>DisplayVerboseInfo\<close> ends without an exception, each row it
  displays carries at most 45 characters of the message, and the fragments of the rows,
  concatenated in order, are the message.
\<close>

theorem DisplayVerboseInfo_roundtrip:
  "\<exists>rows. DisplayVerboseInfo name message = Some rows \<and>
     concat (map row_info rows) = message \<and>
     list_all (\<lambda>r. length (row_info r) \<le> 45) rows"
  using DisplayVerboseInfo_from_rows[of name message 0]
  by (simp add: DisplayVerboseInfo_def DATA_INFO_TAG_LEN_def)

lemma bucket_gpus_eq:
  assumes "\<forall>g\<in>set gs. g < DCGM_MAX_NUM_DEVICES H" and "t < DCGM_PER_GPU_TEST_COUNT_V8 H"
  shows "bucket_gpus H d t gs b =
     Some \<lparr> passed = passed b @ with_status d t DCGM_DIAG_RESULT_PASS gs,
            failed = failed b @ with_status d t DCGM_DIAG_RESULT_FAIL gs,
            skipped = skipped b @ with_status d t DCGM_DIAG_RESULT_SKIP gs,
            warned = warned b @ with_status d t DCGM_DIAG_RESULT_WARN gs \<rparr>"
  using assms
proof (induction gs arbitrary: b)
  case Nil
  then show ?case by (simp add: with_status_def)
next
  case (Cons g gs)
  then show ?case
    by (cases "status (results (d g) t)") (simp_all add: with_status_def array_at_def)
qed

lemma HelperBucketGpus_eq:
  assumes "\<forall>g\<in>set gpuIndices. g < DCGM_MAX_NUM_DEVICES H"
    and "(if testIndex = DCGM_CONTEXT_CREATE_INDEX H then 0 else testIndex) < DCGM_PER_GPU_TEST_COUNT_V8 H"
  shows "HelperBucketGpus H testIndex diagResults gpuIndices =
     Some \<lparr> passed = with_status diagResults (if testIndex = DCGM_CONTEXT_CREATE_INDEX H then 0 else testIndex) DCGM_DIAG_RESULT_PASS gpuIndices,
            failed = with_status diagResults (if testIndex = DCGM_CONTEXT_CREATE_INDEX H then 0 else testIndex) DCGM_DIAG_RESULT_FAIL gpuIndices,
            skipped = with_status diagResults (if testIndex = DCGM_CONTEXT_CREATE_INDEX H then 0 else testIndex) DCGM_DIAG_RESULT_SKIP gpuIndices,
            warned = with_status diagResults (if testIndex = DCGM_CONTEXT_CREATE_INDEX H then 0 else testIndex) DCGM_DIAG_RESULT_WARN gpuIndices \<rparr>"
  unfolding HelperBucketGpus_def
  using bucket_gpus_eq[OF assms] by simp

text \<open>
  C4, as the code has it. For every test index and every list of GPU indices within the
  array of slots, the bucketing of \<open>HelperDisplayGpuResults\<close> puts the id stored in the
  slot of each GPU whose result for the test is pass, fail, skip or warn into the bucket of
  that status and into no other, in the order of the list; a GPU whose result is not-run
  goes into no bucket. (The test index is the one given, or 0 for the context-create
  index.)
\<close>

theorem HelperBucketGpus_buckets:
  assumes "\<forall>g\<in>set gpuIndices. g < DCGM_MAX_NUM_DEVICES H"
    and "t = (if testIndex = DCGM_CONTEXT_CREATE_INDEX H then 0 else testIndex)"
    and "t < DCGM_PER_GPU_TEST_COUNT_V8 H"
  shows "HelperBucketGpus H testIndex diagResults gpuIndices =
     Some \<lparr> passed = with_status diagResults t DCGM_DIAG_RESULT_PASS gpuIndices,
            failed = with_status diagResults t DCGM_DIAG_RESULT_FAIL gpuIndices,
            skipped = with_status diagResults t DCGM_DIAG_RESULT_SKIP gpuIndices,
            warned = with_status diagResults t DCGM_DIAG_RESULT_WARN gpuIndices \<rparr>"
  using HelperBucketGpus_eq[of gpuIndices H testIndex diagResults] assms by simp

theorem HelperBucketGpus_buckets_witness:
  "0 < DCGM_MAX_NUM_DEVICES example_headers \<and> 1 < DCGM_MAX_NUM_DEVICES example_headers \<and>
   (2::nat) = (if (2::nat) = DCGM_CONTEXT_CREATE_INDEX example_headers then 0 else 2) \<and>
   2 < DCGM_PER_GPU_TEST_COUNT_V8 example_headers \<and>
   HelperBucketGpus example_headers 2 (perGpuResponses isolate_response) [0, 1] =
     Some \<lparr> passed = [], failed = [0, 1], skipped = [], warned = [] \<rparr>"
proof -
  have 1: "\<forall>g\<in>set [0, 1]. g < DCGM_MAX_NUM_DEVICES example_headers"
    by (simp add: example_headers_def)
  have 2: "(2::nat) = (if (2::nat) = DCGM_CONTEXT_CREATE_INDEX example_headers then 0 else 2)"
    by (simp add: example_headers_def)
  have 3: "2 < DCGM_PER_GPU_TEST_COUNT_V8 example_headers"
    by (simp add: example_headers_def)
  have 4: "with_status (perGpuResponses isolate_response) 2 DCGM_DIAG_RESULT_PASS [0, 1] = []"
    "with_status (perGpuResponses isolate_response) 2 DCGM_DIAG_RESULT_FAIL [0, 1] = [0, 1]"
    "with_status (perGpuResponses isolate_response) 2 DCGM_DIAG_RESULT_SKIP [0, 1] = []"
    "with_status (perGpuResponses isolate_response) 2 DCGM_DIAG_RESULT_WARN [0, 1] = []"
    by code_simp+
  have 5: "0 < DCGM_MAX_NUM_DEVICES example_headers" "1 < DCGM_MAX_NUM_DEVICES example_headers"
    by (simp_all add: example_headers_def)
  have 6: "HelperBucketGpus example_headers 2 (perGpuResponses isolate_response) [0, 1] =
     Some \<lparr> passed = [], failed = [0, 1], skipped = [], warned = [] \<rparr>"
    using HelperBucketGpus_buckets [OF 1 2 3, of "perGpuResponses isolate_response"]
    by (simp only: 4)
  show ?thesis
    by (intro conjI 5 2 3 6)
qed

text \<open>
  C4 as stated fails: only the memory test ran on GPU 0, which is therefore the GPU set
  of the report, and the bucketing for the PCIe test (index 2) puts it into no bucket.
\<close>

theorem HelperBucketGpus_counterexample:
  "PopulateGpuList example_headers memory_only_response [] = [0] \<and>
   HelperBucketGpus example_headers 2 (perGpuResponses memory_only_response) [0]
     = Some \<lparr> passed = [], failed = [], skipped = [], warned = [] \<rparr> \<and>
   \<not> in_exactly_one_bucket \<lparr> passed = [], failed = [], skipped = [], warned = [] \<rparr> 0"
  by code_simp

lemma for_each_total:
  "(\<And>x. x \<in> set xs \<Longrightarrow> \<exists>ys. body x = Some ys) \<Longrightarrow> \<exists>ys. for_each body xs = Some ys"
proof (induction xs)
  case Nil
  then show ?case by simp
next
  case (Cons x xs)
  obtain a where a: "body x = Some a" using Cons.prems[of x] by auto
  obtain b where b: "for_each body xs = Some b" using Cons.IH Cons.prems by auto
  show ?case by (simp add: a b)
qed

lemma DisplayVerboseInfo_total: "\<exists>rows. DisplayVerboseInfo name message = Some rows"
  using DisplayVerboseInfo_from_rows[of name message 0] by (auto simp: DisplayVerboseInfo_def)

lemma HelperDisplayDeploymentResult_row:
  assumes "status res \<noteq> DCGM_DIAG_RESULT_NOT_RUN"
  shows "\<exists>rows. HelperDisplayDeploymentResult H nameTag res =
     Some (Display nameTag (HelperDisplayDiagResult (status res)) # rows)"
proof -
  have "\<exists>ys. for_each
          (\<lambda>i. if msg (error res i) \<noteq> [] then DisplayVerboseInfo ''Error'' (msg (error res i))
               else Some [])
          [0..<DCGM_MAX_ERRORS H] = Some ys"
    by (rule for_each_total) (auto simp: DisplayVerboseInfo_total)
  then obtain es where es: "for_each
          (\<lambda>i. if msg (error res i) \<noteq> [] then DisplayVerboseInfo ''Error'' (msg (error res i))
               else Some [])
          [0..<DCGM_MAX_ERRORS H] = Some es" by blast
  obtain infos where infos: "(if info res \<noteq> [] then DisplayVerboseInfo ''Info'' (info res) else Some []) = Some infos"
    using DisplayVerboseInfo_total[of "''Info''" "info res"] by (cases "info res = []") auto
  show ?thesis
    using assms es infos unfolding HelperDisplayDeploymentResult_def by simp
qed

lemma member_assign_other:
  "k' \<noteq> k \<Longrightarrow> member (assign (Member k # path) v doc) k' = member doc k'"
  by (cases doc) (simp_all add: member_def update_conv' Let_def)

lemma member_assign_same:
  "member (assign [Member k] v doc) k = v"
  by (cases doc) (simp_all add: member_def update_conv' Let_def)

lemma gpu_warnings_status:
  "member (gpu_warnings res js resultEntry) NVVS_STATUS = member resultEntry NVVS_STATUS"
  by (induction js arbitrary: resultEntry)
     (simp_all add: member_assign_other Let_def del: assign.simps)

lemma basic_warnings_status:
  "member (basic_warnings res js resultEntry) NVVS_STATUS = member resultEntry NVVS_STATUS"
  by (induction js arbitrary: resultEntry)
     (simp_all add: member_assign_other Let_def del: assign.simps)

lemma HelperJsonAddResult_status:
  assumes "status (results gpuResult testIndex) \<noteq> DCGM_DIAG_RESULT_NOT_RUN"
  shows "\<exists>resultEntry. HelperJsonAddResult H gpuResult testEntry gpuIndex testIndex i =
       (assign [Member NVVS_RESULTS, Index i] resultEntry testEntry, True) \<and>
     member resultEntry NVVS_STATUS =
       JString (HelperDisplayDiagResult (status (results gpuResult testIndex)))"
proof -
  define res where "res = results gpuResult testIndex"
  define e3 where "e3 = gpu_warnings res [0..<DCGM_MAX_ERRORS H]
     (assign [Member NVVS_STATUS] (JString (HelperDisplayDiagResult (status res)))
        (assign [Member NVVS_GPU_ID] (JString (take 9 (string_of_nat gpuIndex))) JNull))"
  define e4 where "e4 = (if info res \<noteq> [] then assign [Member NVVS_INFO] (JString (info res)) e3 else e3)"
  have 3: "member e3 NVVS_STATUS = JString (HelperDisplayDiagResult (status res))"
    unfolding e3_def by (simp add: gpu_warnings_status member_assign_same del: assign.simps)
  have 4: "member e4 NVVS_STATUS = JString (HelperDisplayDiagResult (status res))"
    unfolding e4_def using 3 by (simp add: member_assign_other del: assign.simps)
  have "HelperJsonAddResult H gpuResult testEntry gpuIndex testIndex i =
       (assign [Member NVVS_RESULTS, Index i] e4 testEntry, True)"
    using assms unfolding HelperJsonAddResult_def e4_def e3_def res_def
    by (simp add: Let_def del: assign.simps)
  then show ?thesis using 4 unfolding res_def by blast
qed

lemma basic_test_entry_status:
  assumes "testIndex < length levelOneTests"
  shows "\<exists>resultEntry categoryEntry'. basic_test_entry H diagResult testIndex adjustment categoryEntry =
       Some (assign [Member NVVS_TESTS, Index (nat (int testIndex + adjustment)), Member NVVS_RESULTS, Index 0]
               resultEntry categoryEntry') \<and>
     member resultEntry NVVS_STATUS =
       JString (HelperDisplayDiagResult (status (levelOneResults diagResult testIndex)))"
proof -
  define res where "res = levelOneResults diagResult testIndex"
  define e where "e = basic_warnings res [0..<DCGM_MAX_ERRORS H]
     (assign [Member NVVS_STATUS] (JString (HelperDisplayDiagResult (status res))) JNull)"
  have 1: "member e NVVS_STATUS = JString (HelperDisplayDiagResult (status res))"
    unfolding e_def by (simp add: basic_warnings_status member_assign_same del: assign.simps)
  have "basic_test_entry H diagResult testIndex adjustment categoryEntry =
       Some (assign [Member NVVS_TESTS, Index (nat (int testIndex + adjustment)), Member NVVS_RESULTS, Index 0] e
          (assign [Member NVVS_TESTS, Index (nat (int testIndex + adjustment)), Member NVVS_TEST_NAME]
             (JString (levelOneTests ! testIndex)) categoryEntry))"
    using assms unfolding basic_test_entry_def e_def res_def
    by (simp add: Let_def del: assign.simps)
  then show ?thesis using 1 unfolding res_def by blast
qed

text \<open>
  C10, as the code has it. \<open>HelperDisplayDiagResult\<close> maps pass to "Pass", skip to "Skip"
  and each of warn, fail and not-run to "Fail". A level-one result with warn status is
  shown as "Fail" by the text report (\<open>HelperDisplayDeploymentResult\<close>) and by the
  structured report (\<open>HelperJsonAddBasicTests\<close>), and a per-GPU result with warn status is
  given the status "Fail" by the structured report (\<open>HelperJsonAddResult\<close>).
\<close>

theorem status_strings:
  "HelperDisplayDiagResult DCGM_DIAG_RESULT_PASS = ''Pass'' \<and>
   HelperDisplayDiagResult DCGM_DIAG_RESULT_SKIP = ''Skip'' \<and>
   HelperDisplayDiagResult DCGM_DIAG_RESULT_WARN = ''Fail'' \<and>
   HelperDisplayDiagResult DCGM_DIAG_RESULT_FAIL = ''Fail'' \<and>
   HelperDisplayDiagResult DCGM_DIAG_RESULT_NOT_RUN = ''Fail'' \<and>
   (status res = DCGM_DIAG_RESULT_WARN \<longrightarrow>
      (\<exists>rows. HelperDisplayDeploymentResult H nameTag res = Some (Display nameTag ''Fail'' # rows))) \<and>
   (levelOneIndex < length levelOneTests \<and>
    status (levelOneResults diagResult levelOneIndex) = DCGM_DIAG_RESULT_WARN \<longrightarrow>
      (\<exists>resultEntry categoryEntry'.
         basic_test_entry H diagResult levelOneIndex adjustment categoryEntry =
           Some (assign [Member NVVS_TESTS, Index (nat (int levelOneIndex + adjustment)),
                         Member NVVS_RESULTS, Index 0] resultEntry categoryEntry') \<and>
         member resultEntry NVVS_STATUS = JString ''Fail'')) \<and>
   (status (results gpuResult pluginIndex) = DCGM_DIAG_RESULT_WARN \<longrightarrow>
      (\<exists>resultEntry.
         HelperJsonAddResult H gpuResult testEntry gpuIndex pluginIndex i =
           (assign [Member NVVS_RESULTS, Index i] resultEntry testEntry, True) \<and>
         member resultEntry NVVS_STATUS = JString ''Fail''))"
proof (intro conjI impI)
  assume "status res = DCGM_DIAG_RESULT_WARN"
  then show "\<exists>rows. HelperDisplayDeploymentResult H nameTag res = Some (Display nameTag ''Fail'' # rows)"
    using HelperDisplayDeploymentResult_row[of res H nameTag]
    by (simp add: HelperDisplayDiagResult_def)
next
  assume "levelOneIndex < length levelOneTests \<and>
    status (levelOneResults diagResult levelOneIndex) = DCGM_DIAG_RESULT_WARN"
  then show "\<exists>resultEntry categoryEntry'.
         basic_test_entry H diagResult levelOneIndex adjustment categoryEntry =
           Some (assign [Member NVVS_TESTS, Index (nat (int levelOneIndex + adjustment)),
                         Member NVVS_RESULTS, Index 0] resultEntry categoryEntry') \<and>
         member resultEntry NVVS_STATUS = JString ''Fail''"
    using basic_test_entry_status[of levelOneIndex H diagResult adjustment categoryEntry]
    by (simp add: HelperDisplayDiagResult_def del: assign.simps)
next
  assume "status (results gpuResult pluginIndex) = DCGM_DIAG_RESULT_WARN"
  then show "\<exists>resultEntry.
         HelperJsonAddResult H gpuResult testEntry gpuIndex pluginIndex i =
           (assign [Member NVVS_RESULTS, Index i] resultEntry testEntry, True) \<and>
         member resultEntry NVVS_STATUS = JString ''Fail''"
    using HelperJsonAddResult_status[of gpuResult pluginIndex H testEntry gpuIndex i]
    by (simp add: HelperDisplayDiagResult_def del: assign.simps)
qed (simp_all add: HelperDisplayDiagResult_def)

theorem status_strings_witness:
  "status (levelOneResults persistence_warn_response 5) = DCGM_DIAG_RESULT_WARN \<and>
   (\<exists>rows. HelperDisplayDeploymentResult example_headers ''Persistence Mode''
             (levelOneResults persistence_warn_response 5)
           = Some (Display ''Persistence Mode'' ''Fail'' # rows)) \<and>
   5 < length levelOneTests \<and>
   (\<exists>resultEntry categoryEntry'.
      basic_test_entry example_headers persistence_warn_response 5 (- 1) JNull =
        Some (assign [Member NVVS_TESTS, Index 4, Member NVVS_RESULTS, Index 0] resultEntry categoryEntry') \<and>
      member resultEntry NVVS_STATUS = JString ''Fail'') \<and>
   status (results (perGpuResponses pcie_warn_response 0) 2) = DCGM_DIAG_RESULT_WARN \<and>
   (\<exists>resultEntry.
      HelperJsonAddResult example_headers (perGpuResponses pcie_warn_response 0) JNull 0 2 0 =
        (assign [Member NVVS_RESULTS, Index 0] resultEntry JNull, True) \<and>
      member resultEntry NVVS_STATUS = JString ''Fail'')"
proof -
  have 1: "status (levelOneResults persistence_warn_response 5) = DCGM_DIAG_RESULT_WARN"
    by code_simp
  have 2: "5 < length levelOneTests \<and>
           status (levelOneResults persistence_warn_response 5) = DCGM_DIAG_RESULT_WARN"
    by code_simp
  have 3: "status (results (perGpuResponses pcie_warn_response 0) 2) = DCGM_DIAG_RESULT_WARN"
    by code_simp
  have i: "nat (int 5 + (- 1)) = 4" by simp
  note t = status_strings [where res = "levelOneResults persistence_warn_response 5"
      and H = example_headers and nameTag = "''Persistence Mode''"
      and levelOneIndex = 5 and diagResult = persistence_warn_response
      and adjustment = "- 1" and categoryEntry = JNull
      and gpuResult = "perGpuResponses pcie_warn_response 0" and pluginIndex = 2
      and testEntry = JNull and gpuIndex = 0 and i = 0]
  show ?thesis
    using 1 2 3 t unfolding i by blast
qed

text \<open>
  C10 as stated fails for a per-GPU result in the text report: GPU 0 ended the PCIe test
  with a warning, and the only row displayed for the test reads "Warn - All".
\<close>

theorem status_strings_counterexample:
  "status (results (perGpuResponses pcie_warn_response 0) 2) = DCGM_DIAG_RESULT_WARN \<and>
   HelperDisplayGpuResults example_headers example_request ''pcie'' 2
     (perGpuResponses pcie_warn_response) [0] = Some [Display ''PCIe'' ''Warn - All'']"
  by code_simp

section \<open>Properties: cancellation\<close>

lemma happen_aborts [simp]: "abort_requests (happen e w) = abort_requests w"
  by (cases e) (simp_all add: happen_def handle_signal_during_diag_def)

lemma deliver_aborts [simp]: "abort_requests (deliver es w) = abort_requests w"
  by (induction es arbitrary: w) simp_all

lemma happen_flag: "g_signalExit w \<Longrightarrow> g_signalExit (happen e w)"
  by (cases e) (simp_all add: happen_def handle_signal_during_diag_def)

lemma deliver_flag: "g_signalExit w \<Longrightarrow> g_signalExit (deliver es w)"
  by (induction es arbitrary: w) (simp_all add: happen_flag)

lemma poll_killed:
  "g_signalExit (deliver es w) \<Longrightarrow>
   poll D (es # schedule) w diagResult =
     Some (DCGM_ST_NVVS_KILLED, diagResult, killed D (deliver es w), schedule)"
  by (cases schedule) simp_all

lemma poll_aborts:
  "poll D schedule w diagResult = Some (result, diagResult', w', schedule') \<Longrightarrow>
   abort_requests w' = abort_requests w \<or>
   (abort_requests w' = abort_requests w @ [m_hostname D] \<and> result = DCGM_ST_NVVS_KILLED \<and>
    diagResult' = diagResult \<and> g_signalExit w')"
proof (induction D schedule w diagResult rule: poll.induct)
  case (1 D w diagResult)
  then show ?case by simp
next
  case (2 D es1 w diagResult)
  then show ?case by (auto simp: killed_def split: if_splits)
next
  case (3 D es1 es2 schedule w diagResult)
  show ?case
  proof (cases "g_signalExit (deliver es1 w)")
    case True
    then show ?thesis using "3.prems" by (auto simp: killed_def)
  next
    case False
    show ?thesis
    proof (cases "rde (deliver es2 (deliver es1 w))")
      case (HasExited r response)
      then show ?thesis using "3.prems" False by auto
    next
      case NoExecutor
      then show ?thesis using "3.prems" False "3.IH"(1)[OF False NoExecutor] by auto
    next
      case Running
      then show ?thesis using "3.prems" False "3.IH"(2)[OF False Running] by auto
    next
      case Stopped
      then show ?thesis using "3.prems" False "3.IH"(3)[OF False Stopped] by auto
    qed
  qed
qed

lemma ExecuteDiagOnServer_aborts:
  assumes "ExecuteDiagOnServer D diagResult w schedule = Some (result, diagResult', w', schedule')"
  shows "\<not> diag_stopDiagOnSignal w' \<and>
     (abort_requests w' = abort_requests w \<or>
      (abort_requests w' = abort_requests w @ [m_hostname D] \<and> result = DCGM_ST_NVVS_KILLED \<and>
       g_signalExit w'))"
proof -
  obtain es0 schedule1 where s: "schedule = es0 # schedule1"
    using assms by (cases schedule) (auto simp: ExecuteDiagOnServer_def)
  define w1 where "w1 = (deliver es0 w)\<lparr>diag_stopDiagOnSignal := True, rde := Running,
                      dispatched := dispatched w @ [m_drd D]\<rparr>"
  obtain w2 es3 where p: "poll D schedule1 w1 diagResult = Some (result, diagResult', w2, es3 # schedule')"
    and w': "w' = (deliver es3 w2)\<lparr>diag_stopDiagOnSignal := False, rde := NoExecutor\<rparr>"
    using assms unfolding ExecuteDiagOnServer_def s w1_def
    by (auto split: option.splits list.splits)
  have "abort_requests w1 = abort_requests w" by (simp add: w1_def)
  then show ?thesis
    using poll_aborts[OF p] w' by (auto simp: deliver_flag)
qed

lemma unarmed_signal:
  "\<not> diag_stopDiagOnSignal w \<Longrightarrow> handle_signal_during_diag w = w"
  by (simp add: handle_signal_during_diag_def)

lemma after_0: "after w (es1 # sched) 0 = deliver es1 w"
  by (simp add: after_def)

lemma after_1: "after w (es1 # es2 # sched) (Suc 0) = deliver es2 (deliver es1 w)"
  by (simp add: after_def)

lemma after_shift:
  "after w (es1 # es2 # sched) (Suc (Suc k)) = after (deliver es2 (deliver es1 w)) sched k"
  by (simp add: after_def)

lemma fires_shift:
  "fires w (es1 # es2 # sched) (Suc (Suc k)) = fires (deliver es2 (deliver es1 w)) sched k"
  by (simp add: fires_def after_shift)

lemma after_Suc:
  "Suc k < length sched \<Longrightarrow> after w sched (Suc k) = deliver (sched ! Suc k) (after w sched k)"
  by (simp add: after_def take_Suc_conv_app_nth)

lemma after_aborts [simp]: "abort_requests (after w sched k) = abort_requests w"
proof -
  have "abort_requests (foldl (\<lambda>w es. deliver es w) w xs) = abort_requests w" for xs
    by (induction xs arbitrary: w) simp_all
  then show ?thesis by (simp add: after_def)
qed

lemma not_exited_case:
  "\<not> exited w \<Longrightarrow> (case rde w of HasExited r response \<Rightarrow> f r response | _ \<Rightarrow> g) = g"
  by (cases "rde w") (simp_all add: exited_def)

lemma poll_round:
  "\<not> g_signalExit (deliver es1 w) \<Longrightarrow> \<not> exited (deliver es2 (deliver es1 w)) \<Longrightarrow>
   poll D (es1 # es2 # sched) w d = poll D sched (deliver es2 (deliver es1 w)) d"
  by (cases "rde (deliver es2 (deliver es1 w))") (simp_all add: exited_def)

lemma poll_first_flag:
  "k < length sched \<Longrightarrow> even k \<Longrightarrow> fires w sched k \<Longrightarrow> (\<forall>i<k. \<not> fires w sched i) \<Longrightarrow>
   poll D sched w d = Some (DCGM_ST_NVVS_KILLED, d, killed D (after w sched k), drop (Suc k) sched)"
proof (induction sched arbitrary: w k rule: induct_list012)
  case 1
  then show ?case by simp
next
  case (2 es1)
  then show ?case by (simp add: fires_def after_0)
next
  case (3 es1 es2 sched)
  show ?case
  proof (cases k)
    case 0
    then show ?thesis using "3.prems" by (simp add: fires_def after_0)
  next
    case (Suc k1)
    then obtain k2 where k: "k = Suc (Suc k2)" using "3.prems"(2) by (cases k1) auto
    have f0: "\<not> fires w (es1 # es2 # sched) 0" and f1: "\<not> fires w (es1 # es2 # sched) (Suc 0)"
      using "3.prems"(4) k by auto
    have a: "\<not> g_signalExit (deliver es1 w)" using f0 by (simp add: fires_def after_0)
    have b: "\<not> exited (deliver es2 (deliver es1 w))" using f1 by (simp add: fires_def after_1)
    have q: "\<forall>i<k2. \<not> fires (deliver es2 (deliver es1 w)) sched i"
    proof (intro allI impI)
      fix i assume "i < k2"
      then have "\<not> fires w (es1 # es2 # sched) (Suc (Suc i))" using "3.prems"(4) k by simp
      then show "\<not> fires (deliver es2 (deliver es1 w)) sched i" by (simp add: fires_shift)
    qed
    have "poll D sched (deliver es2 (deliver es1 w)) d =
        Some (DCGM_ST_NVVS_KILLED, d, killed D (after (deliver es2 (deliver es1 w)) sched k2), drop (Suc k2) sched)"
      using "3.IH"(1)[of k2 "deliver es2 (deliver es1 w)"] "3.prems" k q
      by (simp add: fires_shift)
    then show ?thesis using a b k by (simp add: poll_round after_shift del: poll.simps)
  qed
qed

lemma poll_first_exit:
  "k < length sched \<Longrightarrow> odd k \<Longrightarrow> rde (after w sched k) = HasExited r response \<Longrightarrow>
   (\<forall>i<k. \<not> fires w sched i) \<Longrightarrow>
   poll D sched w d = Some (r, response, after w sched k, drop (Suc k) sched)"
proof (induction sched arbitrary: w k rule: induct_list012)
  case 1
  then show ?case by simp
next
  case (2 es1)
  then show ?case by auto
next
  case (3 es1 es2 sched)
  have f0: "\<not> fires w (es1 # es2 # sched) 0"
    using "3.prems"(2,4) by (cases k) auto
  have a: "\<not> g_signalExit (deliver es1 w)" using f0 by (simp add: fires_def after_0)
  show ?case
  proof (cases "k = Suc 0")
    case True
    then show ?thesis using "3.prems" a by (simp add: after_1)
  next
    case False
    then obtain k2 where k: "k = Suc (Suc k2)" using "3.prems"(2)
      by (cases k) (auto, metis (no_types) False Suc_pred' odd_pos One_nat_def old.nat.exhaust)
    have f1: "\<not> fires w (es1 # es2 # sched) (Suc 0)" using "3.prems"(4) k by auto
    have b: "\<not> exited (deliver es2 (deliver es1 w))" using f1 by (simp add: fires_def after_1)
    have q: "\<forall>i<k2. \<not> fires (deliver es2 (deliver es1 w)) sched i"
    proof (intro allI impI)
      fix i assume "i < k2"
      then have "\<not> fires w (es1 # es2 # sched) (Suc (Suc i))" using "3.prems"(4) k by simp
      then show "\<not> fires (deliver es2 (deliver es1 w)) sched i" by (simp add: fires_shift)
    qed
    have "poll D sched (deliver es2 (deliver es1 w)) d =
        Some (r, response, after (deliver es2 (deliver es1 w)) sched k2, drop (Suc k2) sched)"
      using "3.IH"(1)[of k2 "deliver es2 (deliver es1 w)"] "3.prems" k q
      by (simp add: after_shift)
    then show ?thesis using a b k by (simp add: poll_round after_shift del: poll.simps)
  qed
qed

lemma poll_never:
  "(\<forall>i<length sched. \<not> fires w sched i) \<Longrightarrow> poll D sched w d = None"
proof (induction sched arbitrary: w rule: induct_list012)
  case 1
  then show ?case by simp
next
  case (2 es1)
  then show ?case by (simp add: fires_def after_0)
next
  case (3 es1 es2 sched)
  have f0: "\<not> fires w (es1 # es2 # sched) 0" and f1: "\<not> fires w (es1 # es2 # sched) (Suc 0)"
    using "3.prems" by auto
  have a: "\<not> g_signalExit (deliver es1 w)" using f0 by (simp add: fires_def after_0)
  have b: "\<not> exited (deliver es2 (deliver es1 w))" using f1 by (simp add: fires_def after_1)
  have q: "\<forall>i<length sched. \<not> fires (deliver es2 (deliver es1 w)) sched i"
  proof (intro allI impI)
    fix i assume "i < length sched"
    then have "\<not> fires w (es1 # es2 # sched) (Suc (Suc i))" using "3.prems" by simp
    then show "\<not> fires (deliver es2 (deliver es1 w)) sched i" by (simp add: fires_shift)
  qed
  show ?case using a b "3.IH"(1)[OF q] by (simp add: poll_round del: poll.simps)
qed

lemma ExecuteDiagOnServer_entered:
  "ExecuteDiagOnServer D d w (es0 # sched) =
     (case poll D sched (entered D w es0) d of
        None \<Rightarrow> None
      | Some (result, d', w2, s2) \<Rightarrow>
          (case s2 of
             [] \<Rightarrow> None
           | es3 # s3 \<Rightarrow>
               Some (result, d', (deliver es3 w2)\<lparr>diag_stopDiagOnSignal := False, rde := NoExecutor\<rparr>, s3)))"
  by (simp add: ExecuteDiagOnServer_def entered_def)

lemma entered_aborts [simp]: "abort_requests (entered D w es0) = abort_requests w"
  by (simp add: entered_def)

lemma run_killed:
  assumes "even k" and "Suc k < length sched" and "fires (entered D w es0) sched k"
    and "\<forall>i<k. \<not> fires (entered D w es0) sched i"
  shows "\<exists>w'. ExecuteDiagOnServer D d w (es0 # sched) =
           Some (DCGM_ST_NVVS_KILLED, d, w', drop (k + 2) sched) \<and>
         abort_requests w' = abort_requests w @ [m_hostname D] \<and>
         \<not> diag_stopDiagOnSignal w' \<and> g_signalExit w'"
proof -
  have k: "k < length sched" using assms(2) by simp
  have p: "poll D sched (entered D w es0) d =
      Some (DCGM_ST_NVVS_KILLED, d, killed D (after (entered D w es0) sched k), drop (Suc k) sched)"
    by (rule poll_first_flag [OF k assms(1) assms(3) assms(4)])
  have dr: "drop (Suc k) sched = sched ! Suc k # drop (k + 2) sched"
    using assms(2) by (simp add: Cons_nth_drop_Suc)
  have f: "g_signalExit (killed D (after (entered D w es0) sched k))"
    using assms(1,3) by (simp add: fires_def killed_def)
  show ?thesis
    unfolding ExecuteDiagOnServer_entered p dr
    using deliver_flag [OF f] by (simp add: killed_def)
qed

lemma run_exit:
  assumes "odd k" and "Suc k < length sched"
    and "rde (after (entered D w es0) sched k) = HasExited r response"
    and "\<forall>i<k. \<not> fires (entered D w es0) sched i"
  shows "\<exists>w'. ExecuteDiagOnServer D d w (es0 # sched) =
           Some (r, response, w', drop (k + 2) sched) \<and>
         abort_requests w' = abort_requests w \<and> \<not> diag_stopDiagOnSignal w'"
proof -
  have k: "k < length sched" using assms(2) by simp
  have p: "poll D sched (entered D w es0) d =
      Some (r, response, after (entered D w es0) sched k, drop (Suc k) sched)"
    by (rule poll_first_exit [OF k assms(1) assms(3) assms(4)])
  have dr: "drop (Suc k) sched = sched ! Suc k # drop (k + 2) sched"
    using assms(2) by (simp add: Cons_nth_drop_Suc)
  show ?thesis
    unfolding ExecuteDiagOnServer_entered p dr by simp
qed

lemma run_never:
  "(\<forall>i<length sched. \<not> fires (entered D w es0) sched i) \<Longrightarrow>
   ExecuteDiagOnServer D d w (es0 # sched) = None"
  by (simp add: ExecuteDiagOnServer_entered poll_never)

lemma signal_while_running:
  assumes j': "j' = (if even j then j else Suc j)" and len: "Suc j' < length sched"
    and flag: "g_signalExit (after (entered D w es0) sched j)"
    and run: "\<forall>i\<le>j. odd i \<longrightarrow> \<not> exited (after (entered D w es0) sched i)"
  shows "\<exists>k w'. even k \<and> k \<le> j' \<and>
           ExecuteDiagOnServer D d w (es0 # sched) =
             Some (DCGM_ST_NVVS_KILLED, d, w', drop (k + 2) sched) \<and>
           abort_requests w' = abort_requests w @ [m_hostname D] \<and>
           \<not> diag_stopDiagOnSignal w' \<and> g_signalExit w'"
proof -
  let ?w = "entered D w es0"
  have ev: "even j'" using j' by simp
  have "g_signalExit (after ?w sched j')"
  proof (cases "even j")
    case True
    then show ?thesis using flag j' by simp
  next
    case False
    then have "Suc j < length sched" using len j' by simp
    then show ?thesis using False j' flag by (simp add: after_Suc deliver_flag)
  qed
  then have fj: "fires ?w sched j'" using ev by (simp add: fires_def)
  define k where "k = (LEAST i. fires ?w sched i)"
  have fk: "fires ?w sched k" unfolding k_def using fj by (rule LeastI)
  have kle: "k \<le> j'" unfolding k_def using fj by (rule Least_le)
  have least: "\<forall>i<k. \<not> fires ?w sched i"
    unfolding k_def using not_less_Least by blast
  have evk: "even k"
  proof (rule ccontr)
    assume o: "odd k"
    then have "k \<noteq> j'" using ev by auto
    then have "k < j'" using kle by simp
    then have "k \<le> j" using j' by (auto split: if_splits)
    then have "\<not> exited (after ?w sched k)" using run o by blast
    then show False using fk o by (simp add: fires_def)
  qed
  have "Suc k < length sched" using kle len by simp
  from run_killed [OF evk this fk least, of d] kle evk show ?thesis by blast
qed

text \<open>
  C2, as the code has it. The events of a run are scheduled in slots: \<open>es0\<close> before the run
  arms itself, then slot \<open>0\<close> before the first test of the flag, slot \<open>1\<close> before the first
  test of \<open>HasExited()\<close>, and so on, the tests of the flag at the even positions and the
  tests of completion at the odd ones.

  When the cancellation flag is true after some slot \<open>j\<close> of an armed run, and the diagnostic
  was not seen complete at the tests of completion up to there (the one that directly
  follows slot \<open>j\<close> included, when \<open>j\<close> is odd), the run returns the killed outcome at a
  test of the flag no later than the next one, with exactly one abort request, for the
  host of the run, and disarmed. When the first test that succeeds is a test of
  completion, the run returns the outcome and the response of the diagnostic with no
  abort request, whatever the flag is by then. Whatever the schedule, a run that returns
  has disarmed the cancellation and has issued no abort request, or exactly one, and then
  it returns the killed outcome with the flag set. A signal delivered while not armed
  leaves the world as it is, flag included, and such a signal before the run arms itself
  does not change the run.
\<close>

theorem cancellation:
  "(g_signalExit (after (entered D w es0) sched j) \<and>
    (\<forall>i\<le>j. odd i \<longrightarrow> \<not> exited (after (entered D w es0) sched i)) \<and>
    Suc (if even j then j else Suc j) < length sched \<longrightarrow>
      (\<exists>k w'. even k \<and> k \<le> (if even j then j else Suc j) \<and>
         ExecuteDiagOnServer D diagResult w (es0 # sched) =
           Some (DCGM_ST_NVVS_KILLED, diagResult, w', drop (k + 2) sched) \<and>
         abort_requests w' = abort_requests w @ [m_hostname D] \<and>
         \<not> diag_stopDiagOnSignal w' \<and> g_signalExit w')) \<and>
   (odd n \<and> Suc n < length sched \<and>
    rde (after (entered D w es0) sched n) = HasExited r response \<and>
    (\<forall>i<n. \<not> fires (entered D w es0) sched i) \<longrightarrow>
      (\<exists>w'. ExecuteDiagOnServer D diagResult w (es0 # sched) =
           Some (r, response, w', drop (n + 2) sched) \<and>
         abort_requests w' = abort_requests w \<and> \<not> diag_stopDiagOnSignal w')) \<and>
   (ExecuteDiagOnServer D diagResult w schedule = Some (result, diagResult', w', schedule') \<longrightarrow>
      \<not> diag_stopDiagOnSignal w' \<and>
      (abort_requests w' = abort_requests w \<or>
       (abort_requests w' = abort_requests w @ [m_hostname D] \<and> result = DCGM_ST_NVVS_KILLED \<and>
        g_signalExit w'))) \<and>
   (\<not> diag_stopDiagOnSignal w \<longrightarrow>
      handle_signal_during_diag w = w \<and>
      ExecuteDiagOnServer D diagResult w ((Signal # es0) # sched) =
        ExecuteDiagOnServer D diagResult w (es0 # sched))"
proof (intro conjI impI)
  assume a: "g_signalExit (after (entered D w es0) sched j) \<and>
    (\<forall>i\<le>j. odd i \<longrightarrow> \<not> exited (after (entered D w es0) sched i)) \<and>
    Suc (if even j then j else Suc j) < length sched"
  show "\<exists>k w'. even k \<and> k \<le> (if even j then j else Suc j) \<and>
         ExecuteDiagOnServer D diagResult w (es0 # sched) =
           Some (DCGM_ST_NVVS_KILLED, diagResult, w', drop (k + 2) sched) \<and>
         abort_requests w' = abort_requests w @ [m_hostname D] \<and>
         \<not> diag_stopDiagOnSignal w' \<and> g_signalExit w'"
    by (rule signal_while_running [OF refl a [THEN conjunct2, THEN conjunct2]
          a [THEN conjunct1] a [THEN conjunct2, THEN conjunct1]])
next
  assume a: "odd n \<and> Suc n < length sched \<and>
    rde (after (entered D w es0) sched n) = HasExited r response \<and>
    (\<forall>i<n. \<not> fires (entered D w es0) sched i)"
  show "\<exists>w'. ExecuteDiagOnServer D diagResult w (es0 # sched) =
           Some (r, response, w', drop (n + 2) sched) \<and>
         abort_requests w' = abort_requests w \<and> \<not> diag_stopDiagOnSignal w'"
    by (rule run_exit [OF a [THEN conjunct1] a [THEN conjunct2, THEN conjunct1]
          a [THEN conjunct2, THEN conjunct2, THEN conjunct1]
          a [THEN conjunct2, THEN conjunct2, THEN conjunct2]])
next
  assume "ExecuteDiagOnServer D diagResult w schedule = Some (result, diagResult', w', schedule')"
  then show "\<not> diag_stopDiagOnSignal w'"
    and "abort_requests w' = abort_requests w \<or>
       (abort_requests w' = abort_requests w @ [m_hostname D] \<and> result = DCGM_ST_NVVS_KILLED \<and>
        g_signalExit w')"
    using ExecuteDiagOnServer_aborts by blast+
next
  assume a: "\<not> diag_stopDiagOnSignal w"
  then show "handle_signal_during_diag w = w" by (rule unarmed_signal)
  show "ExecuteDiagOnServer D diagResult w ((Signal # es0) # sched) =
        ExecuteDiagOnServer D diagResult w (es0 # sched)"
    using a by (simp add: ExecuteDiagOnServer_def happen_def unarmed_signal)
qed

theorem cancellation_witness:
  "g_signalExit (after (entered example_diag quiet_world []) [[], [Signal], [], []] 1) \<and>
   \<not> g_signalExit (after (entered example_diag quiet_world []) [[], [Signal], [], []] 0) \<and>
   \<not> exited (after (entered example_diag quiet_world []) [[], [Signal], [], []] 1) \<and>
   (\<exists>k w'. even k \<and> k \<le> 2 \<and>
      ExecuteDiagOnServer example_diag (InitializeDiagResponse example_headers) quiet_world
          [[], [], [Signal], [], []] =
        Some (DCGM_ST_NVVS_KILLED, InitializeDiagResponse example_headers, w',
              drop (k + 2) [[], [Signal], [], []]) \<and>
      abort_requests w' = abort_requests quiet_world @ [m_hostname example_diag] \<and>
      \<not> diag_stopDiagOnSignal w' \<and> g_signalExit w') \<and>
   g_signalExit (after (entered example_diag quiet_world [])
      [[], [Signal, Exit DCGM_ST_OK memory_only_response], []] 1) \<and>
   rde (after (entered example_diag quiet_world [])
      [[], [Signal, Exit DCGM_ST_OK memory_only_response], []] 1) =
     HasExited DCGM_ST_OK memory_only_response \<and>
   \<not> fires (entered example_diag quiet_world [])
      [[], [Signal, Exit DCGM_ST_OK memory_only_response], []] 0 \<and>
   (\<exists>w'. ExecuteDiagOnServer example_diag (InitializeDiagResponse example_headers) quiet_world
          [[], [], [Signal, Exit DCGM_ST_OK memory_only_response], []] =
        Some (DCGM_ST_OK, memory_only_response, w', []) \<and>
      abort_requests w' = abort_requests quiet_world \<and> \<not> diag_stopDiagOnSignal w') \<and>
   (\<exists>result diagResult' w' schedule'.
      ExecuteDiagOnServer example_diag (InitializeDiagResponse example_headers) quiet_world
        [[], [Signal], []] = Some (result, diagResult', w', schedule') \<and>
      \<not> diag_stopDiagOnSignal w' \<and>
      (abort_requests w' = abort_requests quiet_world \<or>
       (abort_requests w' = abort_requests quiet_world @ [m_hostname example_diag] \<and>
        result = DCGM_ST_NVVS_KILLED \<and> g_signalExit w'))) \<and>
   \<not> diag_stopDiagOnSignal quiet_world \<and>
   handle_signal_during_diag quiet_world = quiet_world \<and>
   ExecuteDiagOnServer example_diag (InitializeDiagResponse example_headers) quiet_world
        [[Signal], [], [Exit DCGM_ST_OK memory_only_response], []] =
   ExecuteDiagOnServer example_diag (InitializeDiagResponse example_headers) quiet_world
        [[], [], [Exit DCGM_ST_OK memory_only_response], []]"
proof -
  let ?d = "InitializeDiagResponse example_headers"
  let ?s = "[[], [Signal], [], []] :: event list list"
  let ?t = "[[], [Signal, Exit DCGM_ST_OK memory_only_response], []]"
  let ?e = "entered example_diag quiet_world []"
  have a1: "g_signalExit (after ?e ?s 1)"
    by (simp add: after_def entered_def quiet_world_def happen_def handle_signal_during_diag_def)
  have a0: "\<not> g_signalExit (after ?e ?s 0)"
    by (simp add: after_def entered_def quiet_world_def)
  have a2: "\<not> exited (after ?e ?s 1)"
    by (simp add: after_def exited_def entered_def quiet_world_def happen_def
        handle_signal_during_diag_def)
  have a3: "\<forall>i\<le>1::nat. odd i \<longrightarrow> \<not> exited (after ?e ?s i)"
  proof (intro allI impI)
    fix i :: nat
    assume "i \<le> 1" and "odd i"
    then have "i = 1" by (cases i) auto
    then show "\<not> exited (after ?e ?s i)" using a2 by simp
  qed
  have a4: "Suc (if even (1::nat) then 1 else Suc 1) < length ?s" by simp
  note t1 = cancellation [where D = example_diag and w = quiet_world and ?es0.0 = "[]"
      and sched = ?s and j = 1 and diagResult = ?d]
  have c1: "\<exists>k w'. even k \<and> k \<le> (if even (1::nat) then 1 else Suc 1) \<and>
      ExecuteDiagOnServer example_diag ?d quiet_world ([] # ?s) =
        Some (DCGM_ST_NVVS_KILLED, ?d, w', drop (k + 2) ?s) \<and>
      abort_requests w' = abort_requests quiet_world @ [m_hostname example_diag] \<and>
      \<not> diag_stopDiagOnSignal w' \<and> g_signalExit w'"
    by (rule t1 [THEN conjunct1, THEN mp, OF conjI [OF a1 conjI [OF a3 a4]]])
  have e1: "(if even (1::nat) then 1 else Suc 1) = (2::nat)" by simp
  have c: "\<exists>k w'. even k \<and> k \<le> 2 \<and>
      ExecuteDiagOnServer example_diag ?d quiet_world [[], [], [Signal], [], []] =
        Some (DCGM_ST_NVVS_KILLED, ?d, w', drop (k + 2) ?s) \<and>
      abort_requests w' = abort_requests quiet_world @ [m_hostname example_diag] \<and>
      \<not> diag_stopDiagOnSignal w' \<and> g_signalExit w'"
    using c1 unfolding e1 .
  have b1: "g_signalExit (after ?e ?t 1)"
    by (simp add: after_def entered_def quiet_world_def happen_def handle_signal_during_diag_def)
  have b2: "rde (after ?e ?t 1) = HasExited DCGM_ST_OK memory_only_response"
    by (simp add: after_def entered_def quiet_world_def happen_def handle_signal_during_diag_def)
  have b3: "\<not> fires ?e ?t 0"
    by (simp add: fires_def after_def entered_def quiet_world_def)
  have b4: "\<forall>i<1::nat. \<not> fires ?e ?t i" using b3 by simp
  have b5: "odd (1::nat)" by simp
  have b6: "Suc 1 < length ?t" by simp
  note t2 = cancellation [where D = example_diag and w = quiet_world and ?es0.0 = "[]"
      and sched = ?t and n = 1 and diagResult = ?d and r = DCGM_ST_OK
      and response = memory_only_response]
  have x1: "\<exists>w'. ExecuteDiagOnServer example_diag ?d quiet_world ([] # ?t) =
        Some (DCGM_ST_OK, memory_only_response, w', drop (1 + 2) ?t) \<and>
      abort_requests w' = abort_requests quiet_world \<and> \<not> diag_stopDiagOnSignal w'"
    by (rule t2 [THEN conjunct2, THEN conjunct1, THEN mp,
          OF conjI [OF b5 conjI [OF b6 conjI [OF b2 b4]]]])
  have e2: "drop (1 + 2) ?t = []" by simp
  have x: "\<exists>w'. ExecuteDiagOnServer example_diag ?d quiet_world
          [[], [], [Signal, Exit DCGM_ST_OK memory_only_response], []] =
        Some (DCGM_ST_OK, memory_only_response, w', []) \<and>
      abort_requests w' = abort_requests quiet_world \<and> \<not> diag_stopDiagOnSignal w'"
    using x1 unfolding e2 .
  have 2: "\<not> diag_stopDiagOnSignal quiet_world"
    by (simp add: quiet_world_def)
  have "\<exists>w'. ExecuteDiagOnServer example_diag ?d quiet_world
        [[], [Signal], []] = Some (DCGM_ST_NVVS_KILLED, ?d, w', [])"
    by (simp add: ExecuteDiagOnServer_def quiet_world_def happen_def handle_signal_during_diag_def)
  then obtain w' where 3: "ExecuteDiagOnServer example_diag ?d quiet_world
        [[], [Signal], []] = Some (DCGM_ST_NVVS_KILLED, ?d, w', [])"
    by blast
  note t3 = cancellation [where w = quiet_world and D = example_diag
      and schedule = "[[], [Signal], []]" and diagResult = ?d
      and result = DCGM_ST_NVVS_KILLED and diagResult' = ?d
      and w' = w' and schedule' = "[]"]
  note t4 = cancellation [where w = quiet_world and D = example_diag
      and ?es0.0 = "[]" and sched = "[[], [Exit DCGM_ST_OK memory_only_response], []]"
      and diagResult = ?d]
  have e: "\<exists>result diagResult' w' schedule'.
      ExecuteDiagOnServer example_diag ?d quiet_world
        [[], [Signal], []] = Some (result, diagResult', w', schedule') \<and>
      \<not> diag_stopDiagOnSignal w' \<and>
      (abort_requests w' = abort_requests quiet_world \<or>
       (abort_requests w' = abort_requests quiet_world @ [m_hostname example_diag] \<and>
        result = DCGM_ST_NVVS_KILLED \<and> g_signalExit w'))"
    using 3 t3 [THEN conjunct2, THEN conjunct2, THEN conjunct1, THEN mp, OF 3]
    by (intro exI conjI) (assumption, simp_all)
  have h: "handle_signal_during_diag quiet_world = quiet_world \<and>
   ExecuteDiagOnServer example_diag ?d quiet_world
        [[Signal], [], [Exit DCGM_ST_OK memory_only_response], []] =
   ExecuteDiagOnServer example_diag ?d quiet_world
        [[], [], [Exit DCGM_ST_OK memory_only_response], []]"
    by (rule t4 [THEN conjunct2, THEN conjunct2, THEN conjunct2, THEN mp, OF 2])
  show ?thesis
    by (intro conjI a1 a0 a2 c b1 b2 b3 x e 2 h [THEN conjunct1] h [THEN conjunct2])
qed

text \<open>
  C2 as stated fails. The run is armed, its diagnostic is executing and the flag is
  false at the loop's test. Then a signal is delivered, which sets the flag, and the
  diagnostic completes; the loop's next statement is the test of \<open>HasExited()\<close>, so it
  returns the code of the diagnostic, OK, with the flag set and no abort request.
\<close>

theorem cancellation_counterexample:
  "\<not> g_signalExit armed_world \<and> diag_stopDiagOnSignal armed_world \<and> rde armed_world = Running \<and>
   g_signalExit (happen Signal armed_world) \<and>
   map_option (\<lambda>(result, diagResult, w, schedule). (result, g_signalExit w, abort_requests w))
     (poll example_diag [[], [Signal, Exit DCGM_ST_OK memory_only_response]] armed_world
        (InitializeDiagResponse example_headers))
   = Some (DCGM_ST_OK, True, [])"
  by (simp add: armed_world_def quiet_world_def happen_def handle_signal_during_diag_def)

section \<open>Properties: one diagnostic\<close>

lemma HelperDisplayAsJson_code:
  "HelperDisplayAsJson H D diagResult gpuIndices w = Some (result, tmp, w') \<Longrightarrow> result = DCGM_ST_OK"
  by (auto simp: HelperDisplayAsJson_def split: option.splits if_splits)

lemma report_system_error:
  assumes "msg (systemError diagResult) \<noteq> []"
  shows "report H D DCGM_ST_OK diagResult w =
     (if m_jsonOutput D = False then
        Some (DCGM_ST_NVVS_ERROR, m_jsonTmpValue D,
              HelperDisplayFailureMessage H D
                (''Error: '' @ msg (systemError diagResult) @ ''\<newline>'') DCGM_ST_OK w)
      else
        (case HelperDisplayAsJson H D diagResult (gpuVec_of H D diagResult) w of
           None \<Rightarrow> None
         | Some (result', tmp, w') \<Rightarrow> Some (GetFailureResult H diagResult, tmp, w')))"
proof (cases "m_jsonOutput D")
  case False
  then show ?thesis using assms by (simp add: report_def)
next
  case True
  show ?thesis
  proof (cases "HelperDisplayAsJson H D diagResult (gpuVec_of H D diagResult) w")
    case None
    then show ?thesis using True by (simp add: report_def)
  next
    case (Some x)
    obtain result' tmp w' where x: "x = (result', tmp, w')" by (cases x) auto
    have "result' = DCGM_ST_OK" using Some x HelperDisplayAsJson_code by blast
    then show ?thesis using True Some x by (simp add: report_def)
  qed
qed

text \<open>
  C8. When \<open>ExecuteDiagOnServer\<close> returns OK and the response carries a non-empty
  system-error message, \<open>RunDiagOnce\<close> in text mode writes the message as a failure and
  returns the generic NVVS error; in structured mode it goes on to the structured report
  (\<open>HelperDisplayAsJson\<close> over the derived GPU set) and returns the classification of the
  response by \<open>GetFailureResult\<close>.
\<close>

theorem RunDiagOnce_system_error:
  assumes "ExecuteDiagOnServer D (InitializeDiagResponse H) (InstallSigHandlers w) schedule =
             Some (DCGM_ST_OK, diagResult, w1, schedule1)"
    and "msg (systemError diagResult) \<noteq> []"
  shows "RunDiagOnce H D w schedule =
     (if m_jsonOutput D = False then
        Some (DCGM_ST_NVVS_ERROR, m_jsonTmpValue D,
              HelperDisplayFailureMessage H D
                (''Error: '' @ msg (systemError diagResult) @ ''\<newline>'') DCGM_ST_OK w1,
              schedule1)
      else
        (case HelperDisplayAsJson H D diagResult (gpuVec_of H D diagResult) w1 of
           None \<Rightarrow> None
         | Some (result', tmp, w2) \<Rightarrow> Some (GetFailureResult H diagResult, tmp, w2, schedule1)))"
  unfolding RunDiagOnce_def
  by (simp add: assms report_system_error split: option.splits)

theorem RunDiagOnce_system_error_witness:
  "msg (systemError system_error_response) \<noteq> [] \<and> m_jsonOutput example_diag = False \<and>
   map_option fst
     (RunDiagOnce example_headers example_diag quiet_world
        [[], [], [Exit DCGM_ST_OK system_error_response], []]) = Some DCGM_ST_NVVS_ERROR \<and>
   map_option fst
     (RunDiagOnce example_headers (example_diag\<lparr>m_jsonOutput := True\<rparr>) quiet_world
        [[], [], [Exit DCGM_ST_OK system_error_response], []]) = Some DCGM_ST_OK"
proof -
  have m: "msg (systemError system_error_response) \<noteq> []"
    by (simp add: system_error_response_def no_error_def)
  have j: "m_jsonOutput example_diag = False" "m_jsonOutput (example_diag\<lparr>m_jsonOutput := True\<rparr>) = True"
    by (simp_all add: example_diag_def)
  have "\<exists>w1. ExecuteDiagOnServer example_diag (InitializeDiagResponse example_headers)
          (InstallSigHandlers quiet_world) [[], [], [Exit DCGM_ST_OK system_error_response], []] =
        Some (DCGM_ST_OK, system_error_response, w1, [])"
    by (simp add: ExecuteDiagOnServer_def InstallSigHandlers_def quiet_world_def happen_def)
  then obtain w1 where e1: "ExecuteDiagOnServer example_diag (InitializeDiagResponse example_headers)
          (InstallSigHandlers quiet_world) [[], [], [Exit DCGM_ST_OK system_error_response], []] =
        Some (DCGM_ST_OK, system_error_response, w1, [])" by blast
  have "\<exists>w1. ExecuteDiagOnServer (example_diag\<lparr>m_jsonOutput := True\<rparr>) (InitializeDiagResponse example_headers)
          (InstallSigHandlers quiet_world) [[], [], [Exit DCGM_ST_OK system_error_response], []] =
        Some (DCGM_ST_OK, system_error_response, w1, [])"
    by (simp add: ExecuteDiagOnServer_def InstallSigHandlers_def quiet_world_def happen_def)
  then obtain w2 where e2: "ExecuteDiagOnServer (example_diag\<lparr>m_jsonOutput := True\<rparr>) (InitializeDiagResponse example_headers)
          (InstallSigHandlers quiet_world) [[], [], [Exit DCGM_ST_OK system_error_response], []] =
        Some (DCGM_ST_OK, system_error_response, w2, [])" by blast
  have g: "GetFailureResult example_headers system_error_response = DCGM_ST_OK"
    by code_simp
  have "HelperJsonBuildOutput example_headers (example_diag\<lparr>m_jsonOutput := True\<rparr>) JNull
      system_error_response
      (gpuVec_of example_headers (example_diag\<lparr>m_jsonOutput := True\<rparr>) system_error_response) \<noteq> None"
    by code_simp
  then have "\<exists>x. HelperDisplayAsJson example_headers (example_diag\<lparr>m_jsonOutput := True\<rparr>)
      system_error_response
      (gpuVec_of example_headers (example_diag\<lparr>m_jsonOutput := True\<rparr>) system_error_response) w2 = Some x"
    by (auto simp: HelperDisplayAsJson_def)
  then obtain x where x: "HelperDisplayAsJson example_headers (example_diag\<lparr>m_jsonOutput := True\<rparr>)
      system_error_response
      (gpuVec_of example_headers (example_diag\<lparr>m_jsonOutput := True\<rparr>) system_error_response) w2 = Some x"
    by blast
  have t: "map_option fst
     (RunDiagOnce example_headers example_diag quiet_world
        [[], [], [Exit DCGM_ST_OK system_error_response], []]) = Some DCGM_ST_NVVS_ERROR"
    unfolding RunDiagOnce_system_error [OF e1 m] using j by simp
  have s: "map_option fst
     (RunDiagOnce example_headers (example_diag\<lparr>m_jsonOutput := True\<rparr>) quiet_world
        [[], [], [Exit DCGM_ST_OK system_error_response], []]) = Some DCGM_ST_OK"
    unfolding RunDiagOnce_system_error [OF e2 m] using j x g by (cases x) simp
  show ?thesis
    by (intro conjI m j(1) t s)
qed

section \<open>Properties: the iterations\<close>






end
